theory Spec2Isabelle
  imports Main "HOL-Library.AList"
begin

section \<open>String primitives of the host language\<close>

text \<open>
  Strings are character lists.  \<open>startsWith\<close>, \<open>includesStr\<close> (the string
  method \<open>includes\<close>) and \<open>replace\<close> with a string pattern (first occurrence
  only) are the methods of the source language's string type.
\<close>

fun startsWith :: "string \<Rightarrow> string \<Rightarrow> bool" where
  "startsWith s [] = True"
| "startsWith [] (p # ps) = False"
| "startsWith (c # cs) (p # ps) = (c = p \<and> startsWith cs ps)"

fun includesStr :: "string \<Rightarrow> string \<Rightarrow> bool" where
  "includesStr [] pat = (pat = [])"
| "includesStr (c # cs) pat = (startsWith (c # cs) pat \<or> includesStr cs pat)"

fun replace :: "string \<Rightarrow> string \<Rightarrow> string \<Rightarrow> string" where
  "replace [] pat rep = (if pat = [] then rep else [])"
| "replace (c # cs) pat rep =
     (if startsWith (c # cs) pat then rep @ drop (length pat) (c # cs)
      else c # replace cs pat rep)"

text \<open>\<open>s.replace(/c/g, rep)\<close> for a single character \<open>c\<close>.\<close>

definition replaceAll :: "string \<Rightarrow> char \<Rightarrow> string \<Rightarrow> string" where
  "replaceAll s c rep = concat (map (\<lambda>x. if x = c then rep else [x]) s)"

text \<open>\<open>s.replace(/\/$/, '')\<close>: drop one trailing slash.\<close>

definition stripTrailingSlash :: "string \<Rightarrow> string" where
  "stripTrailingSlash s = (if s \<noteq> [] \<and> last s = CHR ''/'' then butlast s else s)"

text \<open>\<open>segments.join(sep)\<close>.\<close>

fun join :: "string list \<Rightarrow> string \<Rightarrow> string" where
  "join [] sep = []"
| "join [x] sep = x"
| "join (x # y # ys) sep = x @ sep @ join (y # ys) sep"


section \<open>Data model\<close>

text \<open>
  A page is JSON data delivered by the Content Client.  The parts the resolver
  reads or writes are typed the way the source casts them (\<open>SitecoreField\<close>,
  the \<open>data.datasource\<close> / \<open>data.contextItem\<close> bindings of a rendering); every
  optional property is an \<open>option\<close>; whatever else an object carries (the
  metadata envelope, typed \<open>unknown\<close> in the source) is kept in a \<open>rest\<close>
  component as uninterpreted JSON.
\<close>

datatype jval =
    JNull
  | JBool bool
  | JNum int
  | JStr string
  | JArr "jval list"
  | JObj "(string \<times> jval) list"

type_synonym jrest = "(string \<times> jval) list"

record SitecoreJsonValue =
  jv_value :: "string option"
  jv_rest :: jrest

record SitecoreField =
  sf_value :: "string option"
  sf_jsonValue :: "SitecoreJsonValue option"
  sf_rest :: jrest

text \<open>\<open>{ field?: { jsonValue?: { value?: string } } }\<close>\<close>

record BoundField =
  bf_jsonValue :: "SitecoreJsonValue option"
  bf_rest :: jrest

record FieldBinding =
  fb_field :: "BoundField option"
  fb_rest :: jrest

record RenderingData =
  rd_datasource :: "FieldBinding option"
  rd_contextItem :: "FieldBinding option"
  rd_rest :: jrest

record RenderingFields =
  rf_data :: "RenderingData option"
  rf_rest :: jrest

record Rendering =
  componentName :: "string option"
  r_fields :: "RenderingFields option"
  r_rest :: jrest

type_synonym Placeholders = "(string \<times> Rendering list) list"

record RouteData =
  route_name :: string
  route_itemId :: "string option"
  route_fields :: "(string \<times> SitecoreField) list option"
  route_placeholders :: "Placeholders option"
  route_rest :: jrest

text \<open>\<open>page.layout?.sitecore?.route\<close> and \<open>page.layout?.sitecore?.context?.language\<close>.\<close>

record Page =
  page_route :: "RouteData option"
  page_language :: "string option"
  page_rest :: jrest

text \<open>The item returned by the fetch-item-fields query.\<close>

record RemoteItem =
  item_id :: string
  item_name :: string
  item_path :: string
  item_fields :: "(string \<times> string) list option"

text \<open>
  \<open>JSON.parse(JSON.stringify(x))\<close>: on JSON data the round trip yields an equal
  value that shares nothing with \<open>x\<close>.  HOL values are immutable, so the copy
  is the value itself.
\<close>

definition deepClone :: "'a \<Rightarrow> 'a" where
  "deepClone x = x"

section \<open>Field overlay\<close>

text \<open>
  \<open>titleField?.value || item.name\<close> and \<open>contentField?.value || ''\<close>, with the
  fields found by \<open>fields?.find(...)\<close>.
\<close>

definition extractTitle :: "RemoteItem \<Rightarrow> string" where
  "extractTitle item =
     (case (case item_fields item of None \<Rightarrow> None
            | Some fs \<Rightarrow> find (\<lambda>f. fst f = ''Title'' \<or> fst f = ''title'') fs) of
        None \<Rightarrow> item_name item
      | Some f \<Rightarrow> if snd f \<noteq> [] then snd f else item_name item)"

definition extractContent :: "RemoteItem \<Rightarrow> string" where
  "extractContent item =
     (case (case item_fields item of None \<Rightarrow> None
            | Some fs \<Rightarrow> find (\<lambda>f. fst f = ''Content'' \<or> fst f = ''content'') fs) of
        None \<Rightarrow> []
      | Some f \<Rightarrow> snd f)"

text \<open>
  The object literal
  \<open>{ ...(existing ? clone(existing) : {}), value: v,
      jsonValue: { ...(existing?.jsonValue ? clone(existing.jsonValue) : {}), value: v } }\<close>.
\<close>

definition overrideField :: "SitecoreField option \<Rightarrow> string \<Rightarrow> SitecoreField" where
  "overrideField existing v =
     \<lparr> sf_value = Some v,
       sf_jsonValue = Some \<lparr> jv_value = Some v,
         jv_rest = (case existing of None \<Rightarrow> []
                    | Some e \<Rightarrow> (case sf_jsonValue e of None \<Rightarrow> []
                                 | Some j \<Rightarrow> jv_rest (deepClone j))) \<rparr>,
       sf_rest = (case existing of None \<Rightarrow> [] | Some e \<Rightarrow> sf_rest (deepClone e)) \<rparr>"

text \<open>
  \<open>updatedFields\<close>: a copy of the existing fields with \<open>Title\<close> overridden, and
  \<open>Content\<close> overridden when the remote content is a non-empty string.
\<close>

definition buildUpdatedFields ::
  "(string \<times> SitecoreField) list \<Rightarrow> string \<Rightarrow> string \<Rightarrow> (string \<times> SitecoreField) list" where
  "buildUpdatedFields existingFields title content =
     (let existingTitleField = map_of existingFields ''Title'';
          existingContentField = map_of existingFields ''Content'';
          updatedFields = AList.update ''Title'' (overrideField existingTitleField title) existingFields
      in if content \<noteq> []
         then AList.update ''Content'' (overrideField existingContentField content) updatedFields
         else updatedFields)"

text \<open>\<open>titleField.value || titleField.jsonValue?.value || ''\<close>\<close>

definition titleFieldValue :: "SitecoreField \<Rightarrow> string" where
  "titleFieldValue titleField =
     (case sf_value titleField of
        Some v \<Rightarrow> if v \<noteq> [] then v
                  else (case sf_jsonValue titleField of None \<Rightarrow> []
                        | Some j \<Rightarrow> (case jv_value j of None \<Rightarrow> [] | Some w \<Rightarrow> w))
      | None \<Rightarrow> (case sf_jsonValue titleField of None \<Rightarrow> []
                 | Some j \<Rightarrow> (case jv_value j of None \<Rightarrow> [] | Some w \<Rightarrow> w)))"

text \<open>
  \<open>if (binding?.field?.jsonValue && titleField) binding.field.jsonValue.value = ...\<close>
  for one binding (\<open>contextItem\<close> or \<open>datasource\<close>).
\<close>

definition updateBinding :: "SitecoreField \<Rightarrow> FieldBinding option \<Rightarrow> FieldBinding option" where
  "updateBinding titleField binding =
     (case binding of None \<Rightarrow> None
      | Some b \<Rightarrow>
          (case fb_field b of None \<Rightarrow> Some b
           | Some f \<Rightarrow>
               (case bf_jsonValue f of None \<Rightarrow> Some b
                | Some j \<Rightarrow>
                    Some (b\<lparr>fb_field := Some (f\<lparr>bf_jsonValue :=
                      Some (j\<lparr>jv_value := Some (titleFieldValue titleField)\<rparr>)\<rparr>)\<rparr>))))"

definition updateRenderingFields :: "SitecoreField \<Rightarrow> Rendering \<Rightarrow> Rendering" where
  "updateRenderingFields titleField rendering =
     (case r_fields rendering of None \<Rightarrow> rendering
      | Some renderingFields \<Rightarrow>
          (case rf_data renderingFields of None \<Rightarrow> rendering
           | Some data \<Rightarrow>
               rendering\<lparr>r_fields := Some (renderingFields\<lparr>rf_data := Some
                 (data\<lparr>rd_contextItem := updateBinding titleField (rd_contextItem data),
                       rd_datasource := updateBinding titleField (rd_datasource data)\<rparr>)\<rparr>)\<rparr>))"

text \<open>The \<open>forEach\<close> over every placeholder and every rendering in it.\<close>

definition updatePlaceholders :: "SitecoreField \<Rightarrow> Placeholders \<Rightarrow> Placeholders" where
  "updatePlaceholders titleField placeholders =
     map (\<lambda>(placeholderName, placeholder).
            (placeholderName, map (updateRenderingFields titleField) placeholder)) placeholders"

text \<open>
  The overlay onto the wildcard template: clone the page, set the route's name,
  identifier and fields, then propagate the title into the placeholders.
  A page without a route yields nothing.
\<close>

definition overlay :: "Page \<Rightarrow> RemoteItem \<Rightarrow> string \<Rightarrow> string \<Rightarrow> Page option" where
  "overlay wildcardPage item title content =
     (case page_route wildcardPage of None \<Rightarrow> None
      | Some route \<Rightarrow>
          (let existingFields = (case route_fields route of None \<Rightarrow> [] | Some fs \<Rightarrow> fs);
               updatedFields = buildUpdatedFields existingFields title content;
               modifiedPage = deepClone wildcardPage
           in (case page_route modifiedPage of None \<Rightarrow> Some modifiedPage
               | Some r \<Rightarrow>
                   (let r1 = r\<lparr>route_name := item_name item,
                                route_itemId := Some (item_id item),
                                route_fields := Some updatedFields\<rparr>;
                        r2 = (case route_placeholders r1 of None \<Rightarrow> r1
                              | Some phs \<Rightarrow>
                                  (case map_of updatedFields ''Title'' of None \<Rightarrow> r1
                                   | Some titleField \<Rightarrow>
                                       r1\<lparr>route_placeholders :=
                                            Some (updatePlaceholders titleField phs)\<rparr>))
                    in Some (modifiedPage\<lparr>page_route := Some r2\<rparr>)))))"

text \<open>
  The overlay onto the parent or root template: the same route update, with the
  placeholders left as the clone has them.
\<close>

definition overlayAncestor :: "Page \<Rightarrow> RemoteItem \<Rightarrow> string \<Rightarrow> string \<Rightarrow> Page option" where
  "overlayAncestor templatePage item title content =
     (case page_route templatePage of None \<Rightarrow> None
      | Some route \<Rightarrow>
          (let existingFields = (case route_fields route of None \<Rightarrow> [] | Some fs \<Rightarrow> fs);
               updatedFields = buildUpdatedFields existingFields title content;
               modifiedPage = deepClone templatePage
           in (case page_route modifiedPage of None \<Rightarrow> Some modifiedPage
               | Some r \<Rightarrow>
                   Some (modifiedPage\<lparr>page_route := Some
                     (r\<lparr>route_name := item_name item,
                        route_itemId := Some (item_id item),
                        route_fields := Some updatedFields\<rparr>)\<rparr>))))"

section \<open>Collaborators and configuration\<close>

datatype error =
    ApiKeyMissing
  | FetchRejected
  | RemoteUnavailable nat string
  | RemoteQueryError string
  | ClientFailure string
  | ModuleLoadFailure

text \<open>
  What one HTTP POST to the query endpoint can produce: a rejected fetch, a
  non-success status with its body, an envelope carrying errors, or data.
\<close>

datatype 'a http_result =
    Rejected
  | Status nat string
  | Errors string
  | Data 'a

record WildcardChild =
  child_id :: string
  child_name :: string
  child_path :: string
  child_url_path :: string

text \<open>
  A request to the Content Client is a path with the site and the locale.  The
  Content Client is a remote service: its answer may depend on the requests
  made before, so it is a function of the history of requests and of the
  request, and every call extends the history.  It returns a page, nothing, or
  throws.
\<close>

type_synonym request = "string list \<times> string \<times> string"
type_synonym history = "request list"

text \<open>
  The process environment, the imported configuration and the two remote
  services.  The arguments of \<open>postItemQuery\<close> and \<open>postChildrenQuery\<close> are the
  endpoint, the API key, and the query variables \<open>path\<close> and \<open>language\<close>; the
  children query answers with \<open>item?.children?.results\<close>.
\<close>

record Env =
  SITECORE_TARGET_SITE_NAME :: string
  SITECORE_TARGET_SITE_PATH :: string
  SITECORE_GRAPHQL_API_KEY :: string
  SITECORE_WILDCARD_PATH_PREFIX :: string
  edgeUrl :: string
  contextId :: string
  configDefaultSite :: string
  sites :: "string list"
  clientModuleLoads :: bool
  getPage :: "history \<Rightarrow> request \<Rightarrow> error + Page option"
  postItemQuery :: "string \<Rightarrow> string \<Rightarrow> string \<Rightarrow> string \<Rightarrow> RemoteItem option http_result"
  postChildrenQuery :: "string \<Rightarrow> string \<Rightarrow> string \<Rightarrow> string \<Rightarrow> WildcardChild list option http_result"

definition TARGET_SITE_NAME :: "Env \<Rightarrow> string" where
  "TARGET_SITE_NAME E = SITECORE_TARGET_SITE_NAME E"

definition TARGET_SITE_PATH :: "Env \<Rightarrow> string" where
  "TARGET_SITE_PATH E = SITECORE_TARGET_SITE_PATH E"

definition WILDCARD_PATH_PREFIX :: "Env \<Rightarrow> string" where
  "WILDCARD_PATH_PREFIX E =
     (if SITECORE_WILDCARD_PATH_PREFIX E \<noteq> [] then SITECORE_WILDCARD_PATH_PREFIX E else ''blog'')"

definition callGetPage ::
  "Env \<Rightarrow> history \<Rightarrow> string list \<Rightarrow> string \<Rightarrow> string \<Rightarrow> (error + Page option) \<times> history" where
  "callGetPage E h path site locale =
     (getPage E h (path, site, locale), h @ [(path, site, locale)])"

section \<open>Remote Query Client\<close>

definition makeGraphQLRequest ::
  "Env \<Rightarrow> (string \<Rightarrow> string \<Rightarrow> string \<Rightarrow> string \<Rightarrow> 'a http_result) \<Rightarrow>
   string \<Rightarrow> string \<Rightarrow> string \<Rightarrow> string \<Rightarrow> error + 'a" where
  "makeGraphQLRequest E post baseEdgeUrl path language apiKey =
     (let graphqlApiKey =
            (if SITECORE_GRAPHQL_API_KEY E \<noteq> [] then SITECORE_GRAPHQL_API_KEY E else apiKey)
      in if graphqlApiKey = [] then Inl ApiKeyMissing
         else
           (let cleanBaseUrl0 = stripTrailingSlash baseEdgeUrl;
                cleanBaseUrl =
                  (if includesStr cleanBaseUrl0 ''edge-platform.sitecorecloud.io''
                   then replace cleanBaseUrl0 ''edge-platform.sitecorecloud.io'' ''edge.sitecorecloud.io''
                   else cleanBaseUrl0);
                graphQLEndpoint = cleanBaseUrl @ ''/api/graphql/v1''
            in (case post graphQLEndpoint graphqlApiKey path language of
                  Rejected \<Rightarrow> Inl FetchRejected
                | Status code body \<Rightarrow> Inl (RemoteUnavailable code body)
                | Errors errs \<Rightarrow> Inl (RemoteQueryError errs)
                | Data d \<Rightarrow> Inr d)))"

section \<open>Fallback Resolver\<close>

text \<open>\<open>page.layout?.sitecore?.route?.name || ''\<close> and \<open>...route?.itemId || ''\<close>\<close>

definition pageName :: "Page \<Rightarrow> string" where
  "pageName p = (case page_route p of None \<Rightarrow> [] | Some r \<Rightarrow> route_name r)"

definition pageItemId :: "Page \<Rightarrow> string" where
  "pageItemId p =
     (case page_route p of None \<Rightarrow> []
      | Some r \<Rightarrow> (case route_itemId r of None \<Rightarrow> [] | Some i \<Rightarrow> i))"

text \<open>The segment filter of \<open>queryTargetSiteAndCreatePage\<close>.\<close>

definition validSegment :: "string \<Rightarrow> bool" where
  "validSegment segment \<longleftrightarrow>
     segment \<noteq> [] \<and> \<not> includesStr segment ''.'' \<and> \<not> startsWith segment ''.well-known'' \<and>
     segment \<noteq> ''com.chrome.devtools.json''"

text \<open>
  \<open>validPath.length > 1 ? validPath[validPath.length - 1] : validPath[0]\<close>,
  interpolated into a string: of an empty path it is the text \<open>undefined\<close>.
\<close>

definition itemNameOf :: "string list \<Rightarrow> string" where
  "itemNameOf validPath =
     (if length validPath > 1 then last validPath
      else (case validPath of [] \<Rightarrow> ''undefined'' | x # _ \<Rightarrow> x))"

definition wildcardPaths :: "string list \<Rightarrow> string list list" where
  "wildcardPaths path =
     [ (case path of [] \<Rightarrow> [''*''] | p0 # _ \<Rightarrow> [p0, ''*'']),
       [''*''],
       (case path of [] \<Rightarrow> [] | p0 # _ \<Rightarrow> [p0]) ]"

text \<open>
  The discovery loop of \<open>queryTargetSiteAndCreatePage\<close>.  \<open>wildcardPage\<close> is the
  loop's variable: it is assigned by every lookup that returns, and a lookup
  that throws is caught inside the iteration and leaves it as it was.  A
  result that returns with a pair ends the loop (\<open>break\<close>).
\<close>

fun findWildcardPage ::
  "Env \<Rightarrow> history \<Rightarrow> Page option \<Rightarrow> string list list \<Rightarrow> string \<Rightarrow> string \<Rightarrow>
   Page option \<times> history" where
  "findWildcardPage E h wildcardPage [] site locale = (wildcardPage, h)"
| "findWildcardPage E h wildcardPage (wildcardPath # rest) site locale =
     (case callGetPage E h wildcardPath site locale of
        (Inl e, h1) \<Rightarrow> findWildcardPage E h1 wildcardPage rest site locale
      | (Inr None, h1) \<Rightarrow> findWildcardPage E h1 None rest site locale
      | (Inr (Some p), h1) \<Rightarrow>
          if pageName p = ''*'' \<or> ''*'' \<in> set wildcardPath then (Some p, h1)
          else if wildcardPath \<noteq> [] \<and> last wildcardPath \<noteq> ''*'' then
            (case callGetPage E h1 (wildcardPath @ [''*'']) site locale of
               (Inl e, h2) \<Rightarrow> findWildcardPage E h2 (Some p) rest site locale
             | (Inr None, h2) \<Rightarrow> findWildcardPage E h2 (Some p) rest site locale
             | (Inr (Some c), h2) \<Rightarrow>
                 if pageName c = ''*'' then (Some c, h2)
                 else findWildcardPage E h2 (Some p) rest site locale)
          else findWildcardPage E h1 (Some p) rest site locale)"

text \<open>
  The body of \<open>queryTargetSiteAndCreatePage\<close> inside its \<open>try\<close>: \<open>Inl\<close> is an
  exception that reaches the \<open>catch\<close>.
\<close>

definition queryTargetSiteAndCreatePage_body ::
  "Env \<Rightarrow> history \<Rightarrow> string list \<Rightarrow> string \<Rightarrow> string \<Rightarrow> (error + Page option) \<times> history" where
  "queryTargetSiteAndCreatePage_body E h path site locale =
     (if TARGET_SITE_NAME E = [] \<or> TARGET_SITE_PATH E = [] then (Inr None, h)
      else if edgeUrl E = [] \<or> contextId E = [] then (Inr None, h)
      else
        (let validPath = filter validSegment path;
             itemName = itemNameOf validPath;
             targetItemPath = TARGET_SITE_PATH E @ ''/'' @ itemName;
             normalizedLanguage = (if locale \<noteq> [] \<and> locale \<noteq> ''appspecific'' then locale else ''en'')
         in (case makeGraphQLRequest E (postItemQuery E) (edgeUrl E) targetItemPath
                    normalizedLanguage (contextId E) of
               Inl e \<Rightarrow> (Inl e, h)
             | Inr None \<Rightarrow> (Inr None, h)
             | Inr (Some item) \<Rightarrow>
                 (let title = extractTitle item;
                      content = extractContent item
                  in (case findWildcardPage E h None (wildcardPaths path) site locale of
                        (Some wildcardPage, h1) \<Rightarrow> (Inr (overlay wildcardPage item title content), h1)
                      | (None, h1) \<Rightarrow>
                          (let parentPath = (case path of [] \<Rightarrow> [] | p0 # _ \<Rightarrow> [p0])
                           in (case callGetPage E h1 parentPath site locale of
                                 (Inl e, h2) \<Rightarrow> (Inl e, h2)
                               | (Inr (Some parentPage), h2) \<Rightarrow>
                                   (Inr (overlayAncestor parentPage item title content), h2)
                               | (Inr None, h2) \<Rightarrow>
                                   (case callGetPage E h2 [] site locale of
                                      (Inl e, h3) \<Rightarrow> (Inl e, h3)
                                    | (Inr (Some rootPage), h3) \<Rightarrow>
                                        (Inr (overlayAncestor rootPage item title content), h3)
                                    | (Inr None, h3) \<Rightarrow> (Inr None, h3)))))))))"

definition queryTargetSiteAndCreatePage ::
  "Env \<Rightarrow> history \<Rightarrow> string list \<Rightarrow> string \<Rightarrow> string \<Rightarrow> Page option \<times> history" where
  "queryTargetSiteAndCreatePage E h path site locale =
     (case queryTargetSiteAndCreatePage_body E h path site locale of
        (Inl e, h') \<Rightarrow> (None, h')
      | (Inr r, h') \<Rightarrow> (r, h'))"

text \<open>
  \<open>logWildcardChildren\<close> queries the remote source and prints what it finds; it
  returns no value, touches neither the page nor the Content Client, and
  catches every exception raised inside it.
\<close>

definition logWildcardChildren :: "Env \<Rightarrow> string option \<Rightarrow> string \<Rightarrow> string \<Rightarrow> unit" where
  "logWildcardChildren E wildcardItemPath wildcardItemId language = ()"

text \<open>The early rejection of system requests, and the path cleaning.\<close>

definition isSystemRequest :: "string list \<Rightarrow> string \<Rightarrow> string \<Rightarrow> bool" where
  "isSystemRequest path site locale \<longleftrightarrow>
     site = ''.well-known'' \<or> locale = ''appspecific'' \<or>
     list_ex (\<lambda>segment. includesStr segment ''devtools'' \<or> includesStr segment ''chrome'' \<or>
                         includesStr segment ''.well-known'') path"

definition cleanSegment :: "string \<Rightarrow> bool" where
  "cleanSegment segment \<longleftrightarrow>
     segment \<noteq> [] \<and> \<not> includesStr segment ''.'' \<and> \<not> startsWith segment ''.well-known'' \<and>
     segment \<noteq> ''com.chrome.devtools.json'' \<and> \<not> includesStr segment ''devtools'' \<and>
     \<not> includesStr segment ''chrome''"

definition normalizeLocale :: "string \<Rightarrow> string" where
  "normalizeLocale locale =
     (if locale \<noteq> [] \<and> locale \<noteq> ''appspecific'' \<and> locale \<noteq> ''undefined'' then locale else ''en'')"

text \<open>The candidate paths of the resolver's own scan, which stops at the first page found.\<close>

definition resolverWildcardPaths :: "string list \<Rightarrow> string list list" where
  "resolverWildcardPaths finalPath =
     [ (case finalPath of [] \<Rightarrow> [''*''] | p0 # _ \<Rightarrow> [p0, ''*'']),
       [''*''],
       (if length finalPath > 1 then butlast finalPath @ [''*''] else [''*'']) ]"

fun scanWildcardPaths ::
  "Env \<Rightarrow> history \<Rightarrow> string list list \<Rightarrow> string \<Rightarrow> string \<Rightarrow> (error + Page option) \<times> history" where
  "scanWildcardPaths E h [] site locale = (Inr None, h)"
| "scanWildcardPaths E h (wildcardPath # rest) site locale =
     (case callGetPage E h wildcardPath site locale of
        (Inl e, h1) \<Rightarrow> (Inl e, h1)
      | (Inr None, h1) \<Rightarrow> scanWildcardPaths E h1 rest site locale
      | (Inr (Some p), h1) \<Rightarrow> (Inr (Some p), h1))"

text \<open>The body of \<open>resolvePageWithWildcard\<close> inside its \<open>try\<close>.\<close>

definition resolvePageWithWildcard_body ::
  "Env \<Rightarrow> history \<Rightarrow> string list \<Rightarrow> string \<Rightarrow> string \<Rightarrow> (error + Page option) \<times> history" where
  "resolvePageWithWildcard_body E h path site locale =
     (if isSystemRequest path site locale then (Inr None, h)
      else
        (let finalPath = filter cleanSegment path;
             finalLocale = normalizeLocale locale
         in if finalPath = [] then callGetPage E h [] site finalLocale
            else
              (case callGetPage E h finalPath site finalLocale of
                 (Inl e, h1) \<Rightarrow> (Inl e, h1)
               | (Inr None, h1) \<Rightarrow>
                   (case scanWildcardPaths E h1 (resolverWildcardPaths finalPath) site finalLocale of
                      (Inl e, h2) \<Rightarrow> (Inl e, h2)
                    | (Inr wildcardPage, h2) \<Rightarrow>
                        (let wildcardItemId =
                               (case wildcardPage of None \<Rightarrow> [] | Some wp \<Rightarrow> pageItemId wp)
                         in if wildcardPage \<noteq> None \<and> wildcardItemId \<noteq> [] then
                              (if TARGET_SITE_NAME E \<noteq> [] \<and> TARGET_SITE_PATH E \<noteq> [] then
                                 (case queryTargetSiteAndCreatePage E h2 finalPath site finalLocale of
                                    (Some targetPage, h3) \<Rightarrow> (Inr (Some targetPage), h3)
                                  | (None, h3) \<Rightarrow> (Inr None, h3))
                               else (Inr None, h2))
                            else
                              (if TARGET_SITE_NAME E \<noteq> [] \<and> TARGET_SITE_PATH E \<noteq> [] then
                                 (case queryTargetSiteAndCreatePage E h2 finalPath site finalLocale of
                                    (Some targetPage, h3) \<Rightarrow> (Inr (Some targetPage), h3)
                                  | (None, h3) \<Rightarrow> (Inr None, h3))
                               else (Inr None, h2))))
               | (Inr (Some page), h1) \<Rightarrow>
                   (let itemName = pageName page;
                        itemId = pageItemId page;
                        isWildcardPage = (itemName = ''*'')
                    in if isWildcardPage \<and> length path > 0 then
                         (let actualLanguage =
                                (case page_language page of
                                   None \<Rightarrow> locale
                                 | Some l \<Rightarrow> if l \<noteq> [] then l else locale);
                              u = logWildcardChildren E None itemId actualLanguage
                          in (Inr None, h1))
                       else (Inr (Some page), h1)))))"

definition resolvePageWithWildcard ::
  "Env \<Rightarrow> history \<Rightarrow> string list \<Rightarrow> string \<Rightarrow> string \<Rightarrow> Page option \<times> history" where
  "resolvePageWithWildcard E h path site locale =
     (case resolvePageWithWildcard_body E h path site locale of
        (Inl e, h') \<Rightarrow> (None, h')
      | (Inr r, h') \<Rightarrow> (r, h'))"

section \<open>Sitemap Synthesizer\<close>

text \<open>\<open>s.split(sep)\<close> for a single-character separator.\<close>

fun splitStr :: "string \<Rightarrow> char \<Rightarrow> string list" where
  "splitStr [] sep = [[]]"
| "splitStr (c # cs) sep =
     (if c = sep then [] # splitStr cs sep
      else (case splitStr cs sep of [] \<Rightarrow> [[c]] | x # xs \<Rightarrow> (c # x) # xs))"

definition getTargetSiteChildren :: "Env \<Rightarrow> string \<Rightarrow> WildcardChild list" where
  "getTargetSiteChildren E locale =
     (if TARGET_SITE_NAME E = [] \<or> TARGET_SITE_PATH E = [] then []
      else if edgeUrl E = [] \<or> contextId E = [] then []
      else
        (let normalizedLanguage = (if locale \<noteq> [] \<and> locale \<noteq> ''appspecific'' then locale else ''en'')
         in (case makeGraphQLRequest E (postChildrenQuery E) (edgeUrl E) (TARGET_SITE_PATH E)
                    normalizedLanguage (contextId E) of
               Inl e \<Rightarrow> []
             | Inr None \<Rightarrow> []
             | Inr (Some results) \<Rightarrow> results)))"

text \<open>
  The probing loop of \<open>getWildcardPathPrefix\<close>; a lookup that throws is caught
  inside the iteration.
\<close>

fun probeWildcardPrefix ::
  "Env \<Rightarrow> history \<Rightarrow> string list list \<Rightarrow> string \<Rightarrow> string \<Rightarrow> string list option \<times> history" where
  "probeWildcardPrefix E h [] site locale = (None, h)"
| "probeWildcardPrefix E h (path # rest) site locale =
     (case callGetPage E h path site locale of
        (Inl e, h1) \<Rightarrow> probeWildcardPrefix E h1 rest site locale
      | (Inr None, h1) \<Rightarrow> probeWildcardPrefix E h1 rest site locale
      | (Inr (Some page), h1) \<Rightarrow>
          (case page_route page of
             None \<Rightarrow> probeWildcardPrefix E h1 rest site locale
           | Some r \<Rightarrow>
               if route_name r = ''*'' then (Some (filter (\<lambda>segment. segment \<noteq> ''*'') path), h1)
               else probeWildcardPrefix E h1 rest site locale))"

definition getWildcardPathPrefix ::
  "Env \<Rightarrow> history \<Rightarrow> string \<Rightarrow> string \<Rightarrow> (error + string list) \<times> history" where
  "getWildcardPathPrefix E h site locale =
     (let prefix = filter (\<lambda>x. x \<noteq> []) (splitStr (WILDCARD_PATH_PREFIX E) CHR ''/'')
      in if WILDCARD_PATH_PREFIX E \<noteq> [] \<and> WILDCARD_PATH_PREFIX E \<noteq> ''blog'' \<and> prefix \<noteq> []
         then (Inr prefix, h)
         else
           (let possiblePaths = [[WILDCARD_PATH_PREFIX E, ''*''], [''*'']]
            in if \<not> clientModuleLoads E then (Inl ModuleLoadFailure, h)
               else
                 (case probeWildcardPrefix E h possiblePaths site locale of
                    (Some found, h1) \<Rightarrow> (Inr found, h1)
                  | (None, h1) \<Rightarrow> (Inr [WILDCARD_PATH_PREFIX E], h1))))"

definition escapeXml :: "string \<Rightarrow> string" where
  "escapeXml unsafe =
     replaceAll (replaceAll (replaceAll (replaceAll (replaceAll unsafe
       CHR ''&'' ''&amp;'') CHR ''<'' ''&lt;'') CHR ''>'' ''&gt;'') CHR 0x22 ''&quot;'')
       CHR 0x27 ''&apos;''"

definition NL :: string where
  "NL = [CHR 0x0A]"

definition closingTag :: string where
  "closingTag = ''</urlset>''"

text \<open>One entry of the URL set; \<open>lastmod\<close> is the clock reading when the entry is built.\<close>

definition urlEntry :: "string \<Rightarrow> string \<Rightarrow> string" where
  "urlEntry fullUrl lastmod =
     NL @ ''    <url>'' @
     NL @ ''      <loc>'' @ escapeXml fullUrl @ ''</loc>'' @
     NL @ ''      <lastmod>'' @ lastmod @ ''</lastmod>'' @
     NL @ ''      <changefreq>weekly</changefreq>'' @
     NL @ ''      <priority>0.8</priority>'' @
     NL @ ''    </url>''"

text \<open>
  The loop over the remote children.  \<open>clock i\<close> is the time, in ISO format,
  read while the entry of the \<open>i\<close>-th child is built.
\<close>

fun wildcardUrlEntries ::
  "string \<Rightarrow> string \<Rightarrow> string \<Rightarrow> string list \<Rightarrow> (nat \<Rightarrow> string) \<Rightarrow> nat \<Rightarrow>
   WildcardChild list \<Rightarrow> string list" where
  "wildcardUrlEntries baseUrl defaultSite defaultLocale wildcardPrefix clock i [] = []"
| "wildcardUrlEntries baseUrl defaultSite defaultLocale wildcardPrefix clock i (child # rest) =
     (let pathSegments = [defaultSite, defaultLocale] @ wildcardPrefix @ [child_name child];
          urlPath = ''/'' @ join pathSegments ''/'';
          fullUrl = baseUrl @ urlPath
      in urlEntry fullUrl (clock i)
         # wildcardUrlEntries baseUrl defaultSite defaultLocale wildcardPrefix clock (Suc i) rest)"

text \<open>\<open>scConfig.defaultSite || sites[0]?.name || ''\<close>\<close>

definition defaultSiteOf :: "Env \<Rightarrow> string" where
  "defaultSiteOf E =
     (if configDefaultSite E \<noteq> [] then configDefaultSite E
      else (case sites E of [] \<Rightarrow> [] | s0 # _ \<Rightarrow> s0))"

text \<open>
  The body of \<open>enhanceSitemapWithWildcardPages\<close> inside its \<open>try\<close>.  \<open>baseUrl\<close> is
  the protocol and host of the request's URL.
\<close>

definition enhance_body ::
  "Env \<Rightarrow> history \<Rightarrow> string \<Rightarrow> string \<Rightarrow> (nat \<Rightarrow> string) \<Rightarrow> (error + string) \<times> history" where
  "enhance_body E h sitemapXml baseUrl clock =
     (let defaultSite = defaultSiteOf E;
          defaultLocale = ''en''
      in if defaultSite = [] then (Inr sitemapXml, h)
         else
           (case getWildcardPathPrefix E h defaultSite defaultLocale of
              (Inl e, h1) \<Rightarrow> (Inl e, h1)
            | (Inr wildcardPrefix, h1) \<Rightarrow>
                (let targetChildren = getTargetSiteChildren E defaultLocale
                 in if length targetChildren = 0 then (Inr sitemapXml, h1)
                    else
                      (let entries = wildcardUrlEntries baseUrl defaultSite defaultLocale
                                       wildcardPrefix clock 0 targetChildren
                       in if includesStr sitemapXml closingTag then
                            (let beforeClosing = replace sitemapXml closingTag []
                             in (Inr (beforeClosing @ join entries [] @ NL @ closingTag), h1))
                          else (Inr (sitemapXml @ join entries []), h1)))))"

definition enhanceSitemapWithWildcardPages ::
  "Env \<Rightarrow> history \<Rightarrow> string \<Rightarrow> string \<Rightarrow> (nat \<Rightarrow> string) \<Rightarrow> string \<times> history" where
  "enhanceSitemapWithWildcardPages E h sitemapXml baseUrl clock =
     (if TARGET_SITE_NAME E = [] \<or> TARGET_SITE_PATH E = [] then (sitemapXml, h)
      else
        (case enhance_body E h sitemapXml baseUrl clock of
           (Inl e, h') \<Rightarrow> (sitemapXml, h')
         | (Inr xml, h') \<Rightarrow> (xml, h')))"

section \<open>Vocabulary for stating the properties\<close>

text \<open>
  Read-only views of a page: a route field, the \<open>binding?.field?.jsonValue\<close> chain,
  the values held by the bindings of a rendering and of a placeholder tree, and
  the tree with those values blanked out (everything the propagation must not
  touch); the title, binding values and placeholders of a page; and the page a
  lookup has found, which is none when the lookup returned nothing or threw.
\<close>

definition routeField :: "RouteData \<Rightarrow> string \<Rightarrow> SitecoreField option" where
  "routeField r k = (case route_fields r of None \<Rightarrow> None | Some fs \<Rightarrow> map_of fs k)"

definition bindingJsonValue :: "FieldBinding option \<Rightarrow> SitecoreJsonValue option" where
  "bindingJsonValue binding =
     (case binding of None \<Rightarrow> None
      | Some b \<Rightarrow> (case fb_field b of None \<Rightarrow> None | Some f \<Rightarrow> bf_jsonValue f))"

definition renderingData :: "Rendering \<Rightarrow> RenderingData option" where
  "renderingData rendering =
     (case r_fields rendering of None \<Rightarrow> None | Some rf \<Rightarrow> rf_data rf)"

definition bindingValues :: "Rendering \<Rightarrow> string option list" where
  "bindingValues rendering =
     (case renderingData rendering of None \<Rightarrow> []
      | Some d \<Rightarrow>
          (case bindingJsonValue (rd_contextItem d) of None \<Rightarrow> [] | Some j \<Rightarrow> [jv_value j]) @
          (case bindingJsonValue (rd_datasource d) of None \<Rightarrow> [] | Some j \<Rightarrow> [jv_value j]))"

definition forgetBinding :: "FieldBinding option \<Rightarrow> FieldBinding option" where
  "forgetBinding binding =
     map_option (\<lambda>b. b\<lparr>fb_field := map_option (\<lambda>f. f\<lparr>bf_jsonValue :=
        map_option (\<lambda>j. j\<lparr>jv_value := None\<rparr>) (bf_jsonValue f)\<rparr>) (fb_field b)\<rparr>) binding"

definition forgetBindingValues :: "Rendering \<Rightarrow> Rendering" where
  "forgetBindingValues rendering =
     rendering\<lparr>r_fields := map_option (\<lambda>rf. rf\<lparr>rf_data := map_option (\<lambda>d.
        d\<lparr>rd_contextItem := forgetBinding (rd_contextItem d),
          rd_datasource := forgetBinding (rd_datasource d)\<rparr>) (rf_data rf)\<rparr>) (r_fields rendering)\<rparr>"

definition treeSkeleton :: "Placeholders \<Rightarrow> Placeholders" where
  "treeSkeleton phs = map (\<lambda>(n, rs). (n, map forgetBindingValues rs)) phs"

definition treeBindingValues :: "Placeholders \<Rightarrow> string option list" where
  "treeBindingValues phs = concat (map (\<lambda>(n, rs). concat (map bindingValues rs)) phs)"


definition found :: "error + Page option \<Rightarrow> Page option" where
  "found r = (case r of Inl e \<Rightarrow> None | Inr None \<Rightarrow> None | Inr (Some p) \<Rightarrow> Some p)"



section \<open>Concrete scenarios\<close>

text \<open>
  Pages, remote items, Content Clients and environments at which the theorems
  below are instantiated and the program is run.  A Content Client whose answer
  depends on the length of the history stands for a page that appears between
  two requests.
\<close>

definition titleRendering :: Rendering where
  "titleRendering =
     \<lparr> componentName = Some ''Title'',
       r_fields = Some \<lparr> rf_data = Some
         \<lparr> rd_datasource = None,
           rd_contextItem = Some \<lparr> fb_field = Some
             \<lparr> bf_jsonValue = Some \<lparr> jv_value = Some ''Wildcard'', jv_rest = [] \<rparr>,
               bf_rest = [] \<rparr>, fb_rest = [] \<rparr>,
           rd_rest = [] \<rparr>, rf_rest = [] \<rparr>,
       r_rest = [(''uid'', JStr ''r-1'')] \<rparr>"

definition richTextRendering :: Rendering where
  "richTextRendering =
     \<lparr> componentName = Some ''RichText'', r_fields = None, r_rest = [(''uid'', JStr ''r-2'')] \<rparr>"

definition wildcardTemplate :: Page where
  "wildcardTemplate =
     \<lparr> page_route = Some
         \<lparr> route_name = ''*'',
           route_itemId = Some ''wildcard-id'',
           route_fields = Some
             [(''Title'', \<lparr> sf_value = Some ''Wildcard'',
                 sf_jsonValue = Some \<lparr> jv_value = Some ''Wildcard'', jv_rest = [] \<rparr>,
                 sf_rest = [(''editable'', JStr ''Wildcard'')] \<rparr>),
              (''Content'', \<lparr> sf_value = Some ''Template body'',
                 sf_jsonValue = None, sf_rest = [] \<rparr>)],
           route_placeholders = Some
             [(''headless-header'', []),
              (''headless-main'', [titleRendering, richTextRendering])],
           route_rest = [] \<rparr>,
       page_language = Some ''en'',
       page_rest = [] \<rparr>"

definition helloItem :: RemoteItem where
  "helloItem =
     \<lparr> item_id = ''hello-id'', item_name = ''Hello'',
       item_path = ''/sitecore/content/target/Home/blog/post-1'',
       item_fields = Some [(''Summary'', ''A post''), (''Content'', [])] \<rparr>"

definition plainPage :: Page where
  "plainPage =
     \<lparr> page_route = Some
         \<lparr> route_name = ''blog'', route_itemId = Some ''blog-id'', route_fields = None,
           route_placeholders = Some [(''headless-main'', [richTextRendering])],
           route_rest = [] \<rparr>,
       page_language = Some ''en'', page_rest = [] \<rparr>"


definition wildcardOnlyGetPage :: "history \<Rightarrow> request \<Rightarrow> error + Page option" where
  "wildcardOnlyGetPage h q =
     (if fst q = [''blog'', ''*''] then Inr (Some wildcardTemplate) else Inr None)"

definition directWildcardGetPage :: "history \<Rightarrow> request \<Rightarrow> error + Page option" where
  "directWildcardGetPage h q =
     (if fst q = [''blog'', ''post-1''] \<or> fst q = [''blog'', ''*'']
      then Inr (Some wildcardTemplate) else Inr None)"

definition remoteStub ::
  "RemoteItem \<Rightarrow> string \<Rightarrow> string \<Rightarrow> string \<Rightarrow> string \<Rightarrow> RemoteItem option http_result" where
  "remoteStub item endpoint key path language =
     (if path = ''/sitecore/content/target/Home/blog/post-1'' then Data (Some item) else Data None)"

definition scenarioEnv ::
  "(history \<Rightarrow> request \<Rightarrow> error + Page option) \<Rightarrow>
   (string \<Rightarrow> string \<Rightarrow> string \<Rightarrow> string \<Rightarrow> RemoteItem option http_result) \<Rightarrow> Env" where
  "scenarioEnv client remote =
     \<lparr> SITECORE_TARGET_SITE_NAME = ''target'',
       SITECORE_TARGET_SITE_PATH = ''/sitecore/content/target/Home/blog'',
       SITECORE_GRAPHQL_API_KEY = [],
       SITECORE_WILDCARD_PATH_PREFIX = [],
       edgeUrl = ''https://edge.example/'',
       contextId = ''ctx'',
       configDefaultSite = ''blogs'',
       sites = [],
       clientModuleLoads = True,
       getPage = client,
       postItemQuery = remote,
       postChildrenQuery = (\<lambda>endpoint key path language. Data None) \<rparr>"


definition helloPage :: Page where
  "helloPage =
     \<lparr> page_route = Some
         \<lparr> route_name = ''Hello'',
           route_itemId = Some ''hello-id'',
           route_fields = Some
             [(''Title'', \<lparr> sf_value = Some ''Hello'',
                 sf_jsonValue = Some \<lparr> jv_value = Some ''Hello'', jv_rest = [] \<rparr>,
                 sf_rest = [(''editable'', JStr ''Wildcard'')] \<rparr>),
              (''Content'', \<lparr> sf_value = Some ''Template body'',
                 sf_jsonValue = None, sf_rest = [] \<rparr>)],
           route_placeholders = Some
             [(''headless-header'', []),
              (''headless-main'',
                 [\<lparr> componentName = Some ''Title'',
                    r_fields = Some \<lparr> rf_data = Some
                      \<lparr> rd_datasource = None,
                        rd_contextItem = Some \<lparr> fb_field = Some
                          \<lparr> bf_jsonValue = Some \<lparr> jv_value = Some ''Hello'', jv_rest = [] \<rparr>,
                            bf_rest = [] \<rparr>, fb_rest = [] \<rparr>,
                        rd_rest = [] \<rparr>, rf_rest = [] \<rparr>,
                    r_rest = [(''uid'', JStr ''r-1'')] \<rparr>,
                  richTextRendering])],
           route_rest = [] \<rparr>,
       page_language = Some ''en'',
       page_rest = [] \<rparr>"

definition starOnlyGetPage :: "history \<Rightarrow> request \<Rightarrow> error + Page option" where
  "starOnlyGetPage h q = (if fst q = [''*''] then Inr (Some wildcardTemplate) else Inr None)"

definition wildcardParentGetPage :: "history \<Rightarrow> request \<Rightarrow> error + Page option" where
  "wildcardParentGetPage h q =
     (if fst q = [''blog''] then Inr (Some wildcardTemplate)
      else if fst q = [''*''] then Inl (ClientFailure ''timeout'') else Inr None)"

definition lateWildcardGetPage :: "history \<Rightarrow> request \<Rightarrow> error + Page option" where
  "lateWildcardGetPage h q =
     (if fst q = [''blog''] then Inr (Some plainPage)
      else if fst q = [''blog'', ''*''] \<and> length h \<ge> 3 then Inr (Some wildcardTemplate)
      else Inr None)"

definition emptyGetPage :: "history \<Rightarrow> request \<Rightarrow> error + Page option" where
  "emptyGetPage h q = Inr None"

definition failingGetPage :: "history \<Rightarrow> request \<Rightarrow> error + Page option" where
  "failingGetPage h q = Inl (ClientFailure ''connection reset'')"

definition emptyRemote ::
  "string \<Rightarrow> string \<Rightarrow> string \<Rightarrow> string \<Rightarrow> RemoteItem option http_result" where
  "emptyRemote endpoint key path language = Data None"

definition unavailableRemote ::
  "string \<Rightarrow> string \<Rightarrow> string \<Rightarrow> string \<Rightarrow> RemoteItem option http_result" where
  "unavailableRemote endpoint key path language = Status 503 ''Service Unavailable''"

definition unconfigured :: "Env \<Rightarrow> Env" where
  "unconfigured E = E\<lparr>SITECORE_TARGET_SITE_NAME := [], SITECORE_TARGET_SITE_PATH := []\<rparr>"




definition blogGetPage :: "history \<Rightarrow> request \<Rightarrow> error + Page option" where
  "blogGetPage h q = (if fst q = [''blog''] then Inr (Some plainPage) else Inr None)"


definition sitemapChild :: WildcardChild where
  "sitemapChild =
     \<lparr> child_id = ''post-1-id'', child_name = ''post-1'',
       child_path = ''/sitecore/content/target/Home/blog/post-1'',
       child_url_path = ''/blog/post-1'' \<rparr>"

definition childrenStub ::
  "string \<Rightarrow> string \<Rightarrow> string \<Rightarrow> string \<Rightarrow> WildcardChild list option http_result" where
  "childrenStub endpoint key path language = Data (Some [sitemapChild])"

definition unavailableChildren ::
  "string \<Rightarrow> string \<Rightarrow> string \<Rightarrow> string \<Rightarrow> WildcardChild list option http_result" where
  "unavailableChildren endpoint key path language = Status 503 ''Service Unavailable''"

definition sitemapEnv :: Env where
  "sitemapEnv = (scenarioEnv emptyGetPage emptyRemote)\<lparr>postChildrenQuery := childrenStub\<rparr>"

definition noModuleEnv :: Env where
  "noModuleEnv = sitemapEnv\<lparr>clientModuleLoads := False\<rparr>"

definition noChildrenEnv :: Env where
  "noChildrenEnv = sitemapEnv\<lparr>postChildrenQuery := unavailableChildren\<rparr>"

definition fixedClock :: "nat \<Rightarrow> string" where
  "fixedClock i = ''2026-01-01T00:00:00.000Z''"

definition baseSitemap :: string where
  "baseSitemap = ''<urlset><url><loc>https://example.com/</loc></url></urlset>''"

section \<open>Properties of the overlay\<close>

lemma map_of_buildUpdatedFields_Title:
  "map_of (buildUpdatedFields fs title content) ''Title'' = Some (overrideField (map_of fs ''Title'') title)"
  by (simp add: buildUpdatedFields_def Let_def AList.update_conv')

lemma titleFieldValue_overrideField: "titleFieldValue (overrideField e v) = v"
  by (simp add: titleFieldValue_def overrideField_def)

lemma forgetBinding_updateBinding: "forgetBinding (updateBinding tf b) = forgetBinding b"
  by (simp add: forgetBinding_def updateBinding_def split: option.splits)

lemma forget_updateRenderingFields:
  "forgetBindingValues (updateRenderingFields tf r) = forgetBindingValues r"
  by (simp add: forgetBindingValues_def updateRenderingFields_def forgetBinding_updateBinding
      split: option.splits)

lemma treeSkeleton_updatePlaceholders:
  "treeSkeleton (updatePlaceholders tf phs) = treeSkeleton phs"
  by (induction phs) (auto simp: treeSkeleton_def updatePlaceholders_def forget_updateRenderingFields)

lemma bindingJsonValue_updateBinding:
  "bindingJsonValue (updateBinding tf b) =
     map_option (\<lambda>j. j\<lparr>jv_value := Some (titleFieldValue tf)\<rparr>) (bindingJsonValue b)"
  by (simp add: bindingJsonValue_def updateBinding_def split: option.splits)

lemma bindingValue_case_update:
  "(case map_option (\<lambda>j. j\<lparr>jv_value := Some t\<rparr>) x of None \<Rightarrow> [] | Some j \<Rightarrow> [jv_value j]) =
   map (\<lambda>_. Some t) (case x of None \<Rightarrow> [] | Some j \<Rightarrow> [jv_value j])"
  by (cases x) simp_all

lemma bindingValues_updateRenderingFields:
  "bindingValues (updateRenderingFields tf r) = map (\<lambda>_. Some (titleFieldValue tf)) (bindingValues r)"
  by (simp add: bindingValues_def renderingData_def updateRenderingFields_def
      bindingJsonValue_updateBinding bindingValue_case_update split: option.splits)

lemma treeBindingValues_updatePlaceholders_eq:
  "treeBindingValues (updatePlaceholders tf phs) =
     map (\<lambda>_. Some (titleFieldValue tf)) (treeBindingValues phs)"
  by (induction phs)
     (auto simp: treeBindingValues_def updatePlaceholders_def bindingValues_updateRenderingFields
        map_concat comp_def)

lemma treeSkeleton_names: "treeSkeleton a = treeSkeleton b \<Longrightarrow> map fst a = map fst b"
proof -
  assume "treeSkeleton a = treeSkeleton b"
  then have "map fst (treeSkeleton a) = map fst (treeSkeleton b)" by simp
  then show ?thesis by (simp add: treeSkeleton_def case_prod_unfold comp_def)
qed

lemma treeSkeleton_lengths:
  "treeSkeleton a = treeSkeleton b \<Longrightarrow> map (length \<circ> snd) a = map (length \<circ> snd) b"
proof -
  assume "treeSkeleton a = treeSkeleton b"
  then have "map (length \<circ> snd) (treeSkeleton a) = map (length \<circ> snd) (treeSkeleton b)" by simp
  then show ?thesis by (simp add: treeSkeleton_def case_prod_unfold comp_def)
qed

lemma treeSkeleton_components:
  "treeSkeleton a = treeSkeleton b \<Longrightarrow>
   map (map componentName \<circ> snd) a = map (map componentName \<circ> snd) b"
proof -
  assume "treeSkeleton a = treeSkeleton b"
  then have "map (map componentName \<circ> snd) (treeSkeleton a) = map (map componentName \<circ> snd) (treeSkeleton b)" by simp
  then show ?thesis by (simp add: treeSkeleton_def case_prod_unfold comp_def forgetBindingValues_def)
qed

lemma overlay_route:
  "overlay D item title content = Some D' \<Longrightarrow>
   \<exists>r. page_route D = Some r \<and>
     D' = D\<lparr>page_route := Some (r\<lparr>route_name := item_name item,
        route_itemId := Some (item_id item),
        route_fields := Some (buildUpdatedFields (case route_fields r of None \<Rightarrow> [] | Some fs \<Rightarrow> fs) title content),
        route_placeholders := map_option (updatePlaceholders (overrideField (routeField r ''Title'') title)) (route_placeholders r)\<rparr>)\<rparr>"
  by (auto simp: overlay_def deepClone_def Let_def map_of_buildUpdatedFields_Title routeField_def
      split: option.splits)













text \<open>
  Claim C6.  For every document the overlay accepts, the placeholder tree of the
  result differs from the template's only in the values of the
  \<open>contextItem\<close>/\<open>datasource\<close> bindings: with those values blanked the two trees
  are equal, so the placeholder names, the number and order of the renderings
  and their component names are the same.  Every binding value of the result is
  the new title, and the tree of the result does not depend on the body value
  passed to the overlay.
\<close>

theorem tree_propagation_frame:
  assumes "overlay D item title content = Some D'"
  shows "\<exists>r r'. page_route D = Some r \<and> page_route D' = Some r' \<and>
     map_option treeSkeleton (route_placeholders r') = map_option treeSkeleton (route_placeholders r) \<and>
     map_option (map fst) (route_placeholders r') = map_option (map fst) (route_placeholders r) \<and>
     map_option (map (length \<circ> snd)) (route_placeholders r') =
       map_option (map (length \<circ> snd)) (route_placeholders r) \<and>
     map_option (map (map componentName \<circ> snd)) (route_placeholders r') =
       map_option (map (map componentName \<circ> snd)) (route_placeholders r) \<and>
     map_option treeBindingValues (route_placeholders r') =
       map_option (map (\<lambda>_. Some title) \<circ> treeBindingValues) (route_placeholders r) \<and>
     (\<forall>content2 D2. overlay D item title content2 = Some D2 \<longrightarrow>
        Option.bind (page_route D2) route_placeholders = route_placeholders r')"
proof -
  from overlay_route [OF assms] obtain r where r: "page_route D = Some r"
    and D': "D' = D\<lparr>page_route := Some (r\<lparr>route_name := item_name item,
        route_itemId := Some (item_id item),
        route_fields := Some (buildUpdatedFields (case route_fields r of None \<Rightarrow> [] | Some fs \<Rightarrow> fs) title content),
        route_placeholders := map_option (updatePlaceholders (overrideField (routeField r ''Title'') title)) (route_placeholders r)\<rparr>)\<rparr>"
    by blast
  let ?tf = "overrideField (routeField r ''Title'') title"
  let ?r' = "r\<lparr>route_name := item_name item,
        route_itemId := Some (item_id item),
        route_fields := Some (buildUpdatedFields (case route_fields r of None \<Rightarrow> [] | Some fs \<Rightarrow> fs) title content),
        route_placeholders := map_option (updatePlaceholders ?tf) (route_placeholders r)\<rparr>"
  have r': "page_route D' = Some ?r'" using D' by simp
  have ph: "route_placeholders ?r' = map_option (updatePlaceholders ?tf) (route_placeholders r)"
    by simp
  have sk: "map_option treeSkeleton (route_placeholders ?r') = map_option treeSkeleton (route_placeholders r)"
    unfolding ph by (cases "route_placeholders r") (simp_all add: treeSkeleton_updatePlaceholders)
  have nm: "map_option (map fst) (route_placeholders ?r') = map_option (map fst) (route_placeholders r)"
    unfolding ph
    by (cases "route_placeholders r")
       (simp_all add: treeSkeleton_names [OF treeSkeleton_updatePlaceholders])
  have ln: "map_option (map (length \<circ> snd)) (route_placeholders ?r') =
       map_option (map (length \<circ> snd)) (route_placeholders r)"
    unfolding ph
    by (cases "route_placeholders r")
       (simp_all add: treeSkeleton_lengths [OF treeSkeleton_updatePlaceholders])
  have cn: "map_option (map (map componentName \<circ> snd)) (route_placeholders ?r') =
       map_option (map (map componentName \<circ> snd)) (route_placeholders r)"
    unfolding ph
    by (cases "route_placeholders r")
       (simp_all add: treeSkeleton_components [OF treeSkeleton_updatePlaceholders])
  have bv: "map_option treeBindingValues (route_placeholders ?r') =
       map_option (map (\<lambda>_. Some title) \<circ> treeBindingValues) (route_placeholders r)"
    unfolding ph
    by (cases "route_placeholders r")
       (simp_all add: treeBindingValues_updatePlaceholders_eq titleFieldValue_overrideField)
  have ind: "\<forall>content2 D2. overlay D item title content2 = Some D2 \<longrightarrow>
        Option.bind (page_route D2) route_placeholders = route_placeholders ?r'"
  proof (intro allI impI)
    fix content2 D2 assume "overlay D item title content2 = Some D2"
    from overlay_route [OF this] r show
      "Option.bind (page_route D2) route_placeholders = route_placeholders ?r'"
      by auto
  qed
  show ?thesis
    using r r' sk nm ln cn bv ind by blast
qed

text \<open>The theorem for claim C6 at the wildcard template.\<close>

theorem tree_propagation_frame_witness:
  "Option.bind (Option.bind (overlay wildcardTemplate helloItem ''Hello'' ''Body'') page_route)
     (map_option treeBindingValues \<circ> route_placeholders) = Some [Some ''Hello''] \<and>
   Option.bind (Option.bind (overlay wildcardTemplate helloItem ''Hello'' ''Body'') page_route)
     (map_option (map fst) \<circ> route_placeholders) = Some [''headless-header'', ''headless-main''] \<and>
   Option.bind (Option.bind (overlay wildcardTemplate helloItem ''Hello'' ''Body'') page_route)
     (map_option (map (length \<circ> snd)) \<circ> route_placeholders) = Some [0, 2]"
proof -
  obtain D1 where d1: "overlay wildcardTemplate helloItem ''Hello'' ''Body'' = Some D1"
    by (simp add: overlay_def wildcardTemplate_def deepClone_def Let_def)
  have rt: "page_route wildcardTemplate = Some r \<Longrightarrow>
     map_option treeBindingValues (route_placeholders r) = Some [Some ''Wildcard''] \<and>
     map_option (map fst) (route_placeholders r) = Some [''headless-header'', ''headless-main''] \<and>
     map_option (map (length \<circ> snd)) (route_placeholders r) = Some [0, 2]" for r
    by (auto simp: wildcardTemplate_def treeBindingValues_def bindingValues_def renderingData_def
        bindingJsonValue_def titleRendering_def richTextRendering_def)
  from tree_propagation_frame [OF d1] rt d1 show ?thesis
    by (auto simp: comp_def)
qed

lemma overlayAncestor_route:
  "overlayAncestor D item title content = Some D' \<Longrightarrow>
   \<exists>r. page_route D = Some r \<and>
     D' = D\<lparr>page_route := Some (r\<lparr>route_name := item_name item,
        route_itemId := Some (item_id item),
        route_fields := Some (buildUpdatedFields
          (case route_fields r of None \<Rightarrow> [] | Some fs \<Rightarrow> fs) title content)\<rparr>)\<rparr>"
  by (auto simp: overlayAncestor_def deepClone_def Let_def split: option.splits)

lemma map_of_buildUpdatedFields_Content:
  "map_of (buildUpdatedFields fs title content) ''Content'' =
     (if content \<noteq> [] then Some (overrideField (map_of fs ''Content'') content)
      else map_of fs ''Content'')"
  by (simp add: buildUpdatedFields_def Let_def AList.update_conv')

lemma find_SomeD: "find P xs = Some x \<Longrightarrow> x \<in> set xs \<and> P x"
  by (induction xs) (auto split: if_splits)

lemma extractTitle_no_field:
  "\<forall>fs. item_fields item = Some fs \<longrightarrow> (\<forall>f\<in>set fs. fst f \<noteq> ''Title'' \<and> fst f \<noteq> ''title'')
   \<Longrightarrow> extractTitle item = item_name item"
  by (auto simp: extractTitle_def split: option.splits dest!: find_SomeD)

lemma extractContent_empty:
  "(\<forall>fs. item_fields item = Some fs \<longrightarrow> (\<forall>f\<in>set fs. fst f \<noteq> ''Content'' \<and> fst f \<noteq> ''content''))
   \<or> (\<exists>fs f. item_fields item = Some fs \<and>
         find (\<lambda>f. fst f = ''Content'' \<or> fst f = ''content'') fs = Some f \<and> snd f = [])
   \<Longrightarrow> extractContent item = []"
proof (elim disjE)
  assume "\<forall>fs. item_fields item = Some fs \<longrightarrow>
     (\<forall>f\<in>set fs. fst f \<noteq> ''Content'' \<and> fst f \<noteq> ''content'')"
  then show ?thesis
    by (auto simp: extractContent_def split: option.splits dest!: find_SomeD)
next
  assume "\<exists>fs f. item_fields item = Some fs \<and>
         find (\<lambda>f. fst f = ''Content'' \<or> fst f = ''content'') fs = Some f \<and> snd f = []"
  then show ?thesis
    by (auto simp: extractContent_def)
qed

text \<open>
  Claim C10.  Whichever template the enrichment overlays (the wildcard page, or
  the parent or root page), with the title and content taken from the fetched
  item: when the item exposes no \<open>Title\<close>/\<open>title\<close> field, both representations of
  the result's \<open>Title\<close> field hold the item's name; and when the item's
  \<open>Content\<close>/\<open>content\<close> field is absent, or the first such field has the empty
  string as its value, the result's \<open>Content\<close> field is the template's.
\<close>

theorem remote_title_content_defaults:
  assumes "overlay T item (extractTitle item) (extractContent item) = Some D \<or>
           overlayAncestor T item (extractTitle item) (extractContent item) = Some D"
  shows "\<exists>r r'. page_route T = Some r \<and> page_route D = Some r' \<and>
     ((\<forall>fs. item_fields item = Some fs \<longrightarrow>
          (\<forall>f\<in>set fs. fst f \<noteq> ''Title'' \<and> fst f \<noteq> ''title'')) \<longrightarrow>
        (\<exists>tf j. routeField r' ''Title'' = Some tf \<and> sf_value tf = Some (item_name item) \<and>
           sf_jsonValue tf = Some j \<and> jv_value j = Some (item_name item))) \<and>
     (((\<forall>fs. item_fields item = Some fs \<longrightarrow>
          (\<forall>f\<in>set fs. fst f \<noteq> ''Content'' \<and> fst f \<noteq> ''content'')) \<or>
       (\<exists>fs f. item_fields item = Some fs \<and>
          find (\<lambda>f. fst f = ''Content'' \<or> fst f = ''content'') fs = Some f \<and> snd f = [])) \<longrightarrow>
        routeField r' ''Content'' = routeField r ''Content'')"
proof -
  let ?fs = "\<lambda>r. case route_fields r of None \<Rightarrow> [] | Some fs \<Rightarrow> fs"
  from assms obtain r r' where r: "page_route T = Some r" and r': "page_route D = Some r'"
    and f: "route_fields r' = Some (buildUpdatedFields (?fs r) (extractTitle item) (extractContent item))"
  proof
    assume "overlay T item (extractTitle item) (extractContent item) = Some D"
    from overlay_route [OF this] that show thesis by auto
  next
    assume "overlayAncestor T item (extractTitle item) (extractContent item) = Some D"
    from overlayAncestor_route [OF this] that show thesis by auto
  qed
  have t: "routeField r' ''Title'' = Some (overrideField (map_of (?fs r) ''Title'') (extractTitle item))"
    by (simp add: routeField_def f map_of_buildUpdatedFields_Title)
  have c: "extractContent item = [] \<Longrightarrow> routeField r' ''Content'' = routeField r ''Content''"
    by (simp add: routeField_def f map_of_buildUpdatedFields_Content split: option.splits)
  have t': "\<exists>tf j. routeField r' ''Title'' = Some tf \<and> sf_value tf = Some (extractTitle item) \<and>
           sf_jsonValue tf = Some j \<and> jv_value j = Some (extractTitle item)"
    unfolding t by (simp add: overrideField_def)
  show ?thesis
    using r r' t' c extractTitle_no_field [of item] extractContent_empty [of item]
    by (intro exI [of _ r] exI [of _ r'] conjI impI) (simp_all)
qed

text \<open>The theorem for claim C10 at an item without a title field and with an empty content field.\<close>

theorem remote_title_content_defaults_witness:
  "Option.bind (Option.bind (overlay wildcardTemplate helloItem (extractTitle helloItem)
       (extractContent helloItem)) page_route) (\<lambda>r. routeField r ''Title'') =
     Some \<lparr> sf_value = Some ''Hello'',
            sf_jsonValue = Some \<lparr> jv_value = Some ''Hello'', jv_rest = [] \<rparr>,
            sf_rest = [(''editable'', JStr ''Wildcard'')] \<rparr> \<and>
   Option.bind (Option.bind (overlay wildcardTemplate helloItem (extractTitle helloItem)
       (extractContent helloItem)) page_route) (\<lambda>r. routeField r ''Content'') =
     Some \<lparr> sf_value = Some ''Template body'', sf_jsonValue = None, sf_rest = [] \<rparr>"
proof -
  obtain D1 where d1: "overlay wildcardTemplate helloItem (extractTitle helloItem)
       (extractContent helloItem) = Some D1"
    by (simp add: overlay_def wildcardTemplate_def deepClone_def Let_def)
  have nt: "\<forall>fs. item_fields helloItem = Some fs \<longrightarrow>
          (\<forall>f\<in>set fs. fst f \<noteq> ''Title'' \<and> fst f \<noteq> ''title'')"
    by (simp add: helloItem_def)
  have ec: "\<exists>fs f. item_fields helloItem = Some fs \<and>
          find (\<lambda>f. fst f = ''Content'' \<or> fst f = ''content'') fs = Some f \<and> snd f = []"
    by (simp add: helloItem_def)
  have rt: "page_route wildcardTemplate = Some r \<Longrightarrow>
      routeField r ''Content'' =
        Some \<lparr> sf_value = Some ''Template body'', sf_jsonValue = None, sf_rest = [] \<rparr>" for r
    by (auto simp: wildcardTemplate_def routeField_def)
  have nm: "item_name helloItem = ''Hello''" by (simp add: helloItem_def)
  from remote_title_content_defaults [of wildcardTemplate helloItem D1] d1 nt ec
  obtain r r' tf j where a: "page_route wildcardTemplate = Some r" "page_route D1 = Some r'"
     "routeField r' ''Title'' = Some tf" "sf_value tf = Some (item_name helloItem)"
     "sf_jsonValue tf = Some j" "jv_value j = Some (item_name helloItem)"
     "routeField r' ''Content'' = routeField r ''Content''"
    by blast
  have tfull: "routeField r' ''Title'' = Some \<lparr> sf_value = Some ''Hello'',
            sf_jsonValue = Some \<lparr> jv_value = Some ''Hello'', jv_rest = [] \<rparr>,
            sf_rest = [(''editable'', JStr ''Wildcard'')] \<rparr>"
    using d1 a(2)
    by (auto simp: overlay_def wildcardTemplate_def deepClone_def Let_def routeField_def
        buildUpdatedFields_def overrideField_def extractTitle_def extractContent_def helloItem_def
        split: option.splits)
  show ?thesis using d1 a rt [OF a(1)] tfull by simp
qed

section \<open>Properties of the resolver\<close>






lemma queryTarget_Some:
  assumes "fst (queryTargetSiteAndCreatePage E h path site locale) = Some D"
  shows "TARGET_SITE_NAME E \<noteq> [] \<and> TARGET_SITE_PATH E \<noteq> [] \<and>
     (\<exists>item. makeGraphQLRequest E (postItemQuery E) (edgeUrl E)
        (TARGET_SITE_PATH E @ ''/'' @ itemNameOf (filter validSegment path))
        (if locale \<noteq> [] \<and> locale \<noteq> ''appspecific'' then locale else ''en'') (contextId E)
        = Inr (Some item))"
  using assms
  by (auto simp: queryTargetSiteAndCreatePage_def queryTargetSiteAndCreatePage_body_def Let_def
      split: if_splits sum.splits option.splits prod.splits)

lemma resolve_Some:
  assumes "fst (resolvePageWithWildcard E h path site locale) = Some D"
  shows "found (getPage E h (filter cleanSegment path, site, normalizeLocale locale)) = Some D \<or>
     (found (getPage E h (filter cleanSegment path, site, normalizeLocale locale)) = None \<and>
      (\<exists>h2. fst (queryTargetSiteAndCreatePage E h2 (filter cleanSegment path) site
                  (normalizeLocale locale)) = Some D))"
  using assms
  by (auto simp: resolvePageWithWildcard_def resolvePageWithWildcard_body_def Let_def
      callGetPage_def found_def
      split: if_splits sum.splits option.splits prod.splits)
     (metis fst_conv)+

text \<open>
  Claim C1, as the code has it.  For a request that is not rejected as a system
  request and whose cleaned path is not empty: when the direct lookup returns a
  document whose route name is the wildcard marker, the resolver returns nothing
  and the direct lookup is the only request it makes to the Content Client.  The
  wildcard result is terminal; neither wildcard discovery nor remote enrichment
  follows.
\<close>

theorem direct_wildcard_is_terminal:
  assumes "\<not> isSystemRequest path site locale"
    and "filter cleanSegment path \<noteq> []"
    and "getPage E h (filter cleanSegment path, site, normalizeLocale locale) = Inr (Some page)"
    and "pageName page = ''*''"
  shows "resolvePageWithWildcard E h path site locale =
           (None, h @ [(filter cleanSegment path, site, normalizeLocale locale)])"
proof -
  from assms(2) have "path \<noteq> []" by auto
  with assms show ?thesis
    by (simp add: resolvePageWithWildcard_def resolvePageWithWildcard_body_def Let_def
        callGetPage_def)
qed





lemmas eval_defs =
  resolvePageWithWildcard_def resolvePageWithWildcard_body_def isSystemRequest_def cleanSegment_def
  normalizeLocale_def callGetPage_def resolverWildcardPaths_def pageName_def pageItemId_def
  queryTargetSiteAndCreatePage_def queryTargetSiteAndCreatePage_body_def TARGET_SITE_NAME_def
  TARGET_SITE_PATH_def validSegment_def itemNameOf_def makeGraphQLRequest_def stripTrailingSlash_def
  wildcardPaths_def logWildcardChildren_def Let_def

lemmas overlay_eval_defs =
  overlay_def overlayAncestor_def deepClone_def buildUpdatedFields_def overrideField_def
  updatePlaceholders_def updateRenderingFields_def updateBinding_def titleFieldValue_def
  extractTitle_def extractContent_def

text \<open>
  Claim C1 as stated fails.  With a remote item and a wildcard page at
  \<open>["blog","*"]\<close> in both cases: when the direct lookup of \<open>["blog","post-1"]\<close>
  returns the wildcard-named page the resolver returns nothing, and when it
  returns nothing the resolver returns the enriched page.
\<close>

theorem c1_counterexample:
  "fst (resolvePageWithWildcard (scenarioEnv directWildcardGetPage (remoteStub helloItem)) []
         [''blog'', ''post-1''] ''blogs'' ''en'') = None \<and>
   fst (resolvePageWithWildcard (scenarioEnv wildcardOnlyGetPage (remoteStub helloItem)) []
         [''blog'', ''post-1''] ''blogs'' ''en'') = Some helloPage"
proof
  show "fst (resolvePageWithWildcard (scenarioEnv directWildcardGetPage (remoteStub helloItem)) []
         [''blog'', ''post-1''] ''blogs'' ''en'') = None"
    by (simp add: eval_defs scenarioEnv_def directWildcardGetPage_def wildcardTemplate_def)
next
  show "fst (resolvePageWithWildcard (scenarioEnv wildcardOnlyGetPage (remoteStub helloItem)) []
         [''blog'', ''post-1''] ''blogs'' ''en'') = Some helloPage"
    by (simp add: eval_defs overlay_eval_defs scenarioEnv_def wildcardOnlyGetPage_def
        remoteStub_def helloItem_def wildcardTemplate_def helloPage_def titleRendering_def
        richTextRendering_def)
qed

text \<open>The theorem for claim C1 at the first of these two scenarios.\<close>

theorem direct_wildcard_is_terminal_witness:
  "resolvePageWithWildcard (scenarioEnv directWildcardGetPage (remoteStub helloItem)) []
         [''blog'', ''post-1''] ''blogs'' ''en'' = (None, [([''blog'', ''post-1''], ''blogs'', ''en'')])"
proof -
  have c: "filter cleanSegment [''blog'', ''post-1''] = [''blog'', ''post-1'']"
    by (simp add: cleanSegment_def)
  have "\<not> isSystemRequest [''blog'', ''post-1''] ''blogs'' ''en''"
    by (simp add: isSystemRequest_def)
  moreover have "filter cleanSegment [''blog'', ''post-1''] \<noteq> []"
    unfolding c by simp
  moreover have "getPage (scenarioEnv directWildcardGetPage (remoteStub helloItem)) []
      (filter cleanSegment [''blog'', ''post-1''], ''blogs'', normalizeLocale ''en'') =
      Inr (Some wildcardTemplate)"
    unfolding c by (simp add: scenarioEnv_def directWildcardGetPage_def)
  moreover have "pageName wildcardTemplate = ''*''"
    by (simp add: pageName_def wildcardTemplate_def)
  ultimately show ?thesis
    using direct_wildcard_is_terminal [of "[''blog'', ''post-1'']" "''blogs''" "''en''"
        "scenarioEnv directWildcardGetPage (remoteStub helloItem)" "[]" wildcardTemplate]
    unfolding c by (simp add: normalizeLocale_def)
qed



text \<open>
  Claim C3, as the code has it.  Wildcard discovery runs twice.  The resolver's
  own scan asks the Content Client for \<open>[firstSegment, "*"]\<close>, then \<open>["*"]\<close>, then
  the path with its last segment replaced by the marker (\<open>["*"]\<close> again for a path
  of one segment), and stops at the first candidate that resolves to a document.
  The discovery loop that selects the template (in
  \<open>queryTargetSiteAndCreatePage\<close>) asks for \<open>[firstSegment, "*"]\<close>, then \<open>["*"]\<close>,
  then \<open>[firstSegment]\<close>, each request extending the history, and a lookup that
  returns nothing or throws moves on to the next candidate.  It stops at the
  first candidate that resolves to a document when the candidate's path contains
  the marker (the first two candidates, and the third when the first segment is
  itself the marker) or the document's route name is the marker.  A third
  candidate that resolves to a document with another name is a parent:
  \<open>[firstSegment, "*"]\<close> is requested once more beneath it, and a wildcard-named
  answer is the result.
\<close>

theorem wildcard_discovery_precedence:
  "let q1 = ([f, ''*''], site, locale); q2 = ([''*''], site, locale); q3 = ([f], site, locale);
       qa = (if length (f # rest) > 1 then butlast (f # rest) @ [''*''] else [''*''], site, locale);
       h1 = h @ [q1]; h2 = h1 @ [q2]; h3 = h2 @ [q3]; h4 = h3 @ [q1];
       r1 = found (getPage E h q1); r2 = found (getPage E h1 q2);
       r3 = found (getPage E h2 q3); r4 = found (getPage E h3 q1);
       result = findWildcardPage E h None (wildcardPaths (f # rest)) site locale;
       scan = scanWildcardPaths E h (resolverWildcardPaths (f # rest)) site locale
   in ((\<forall>d. getPage E h q1 = Inr (Some d) \<longrightarrow> scan = (Inr (Some d), h1)) \<and>
       (\<forall>d. getPage E h q1 = Inr None \<and> getPage E h1 q2 = Inr (Some d) \<longrightarrow>
            scan = (Inr (Some d), h2)) \<and>
       (\<forall>d. getPage E h q1 = Inr None \<and> getPage E h1 q2 = Inr None \<and>
            getPage E h2 qa = Inr (Some d) \<longrightarrow> scan = (Inr (Some d), h2 @ [qa])) \<and>
       (getPage E h q1 = Inr None \<and> getPage E h1 q2 = Inr None \<and> getPage E h2 qa = Inr None \<longrightarrow>
            scan = (Inr None, h2 @ [qa]))) \<and>
      ((\<forall>d. r1 = Some d \<longrightarrow> result = (Some d, h1)) \<and>
       (\<forall>d. r1 = None \<and> r2 = Some d \<longrightarrow> result = (Some d, h2)) \<and>
       (\<forall>d. r1 = None \<and> r2 = None \<and> r3 = Some d \<and> (pageName d = ''*'' \<or> f = ''*'') \<longrightarrow>
            result = (Some d, h3)) \<and>
       (\<forall>p c. r1 = None \<and> r2 = None \<and> r3 = Some p \<and> pageName p \<noteq> ''*'' \<and> f \<noteq> ''*'' \<and>
              r4 = Some c \<and> pageName c = ''*'' \<longrightarrow> result = (Some c, h4)) \<and>
       (r1 = None \<and> r2 = None \<and> r3 = None \<longrightarrow> result = (None, h3)))"
proof -
  let ?q1 = "([f, ''*''], site, locale)" and ?q2 = "([''*''], site, locale)"
  let ?q3 = "([f], site, locale)"
  let ?qa = "(if length (f # rest) > 1 then butlast (f # rest) @ [''*''] else [''*''], site, locale)"
  let ?res = "findWildcardPage E h None (wildcardPaths (f # rest)) site locale"
  let ?scan = "scanWildcardPaths E h (resolverWildcardPaths (f # rest)) site locale"
  have s1: "getPage E h ?q1 = Inr (Some d) \<Longrightarrow> ?scan = (Inr (Some d), h @ [?q1])" for d
    by (simp add: resolverWildcardPaths_def callGetPage_def)
  have s2: "getPage E h ?q1 = Inr None \<Longrightarrow> getPage E (h @ [?q1]) ?q2 = Inr (Some d) \<Longrightarrow>
      ?scan = (Inr (Some d), (h @ [?q1]) @ [?q2])" for d
    by (simp add: resolverWildcardPaths_def callGetPage_def)
  have s3: "getPage E h ?q1 = Inr None \<Longrightarrow> getPage E (h @ [?q1]) ?q2 = Inr None \<Longrightarrow>
      getPage E ((h @ [?q1]) @ [?q2]) ?qa = Inr (Some d) \<Longrightarrow>
      ?scan = (Inr (Some d), ((h @ [?q1]) @ [?q2]) @ [?qa])" for d
    by (simp add: resolverWildcardPaths_def callGetPage_def split: if_splits)
  have s4: "getPage E h ?q1 = Inr None \<Longrightarrow> getPage E (h @ [?q1]) ?q2 = Inr None \<Longrightarrow>
      getPage E ((h @ [?q1]) @ [?q2]) ?qa = Inr None \<Longrightarrow>
      ?scan = (Inr None, ((h @ [?q1]) @ [?q2]) @ [?qa])"
    by (simp add: resolverWildcardPaths_def callGetPage_def split: if_splits)
  have c1: "found (getPage E h ?q1) = Some d \<Longrightarrow> ?res = (Some d, h @ [?q1])" for d
    by (auto simp: wildcardPaths_def callGetPage_def found_def split: sum.splits option.splits)
  have c2: "found (getPage E h ?q1) = None \<Longrightarrow> found (getPage E (h @ [?q1]) ?q2) = Some d \<Longrightarrow>
      ?res = (Some d, (h @ [?q1]) @ [?q2])" for d
    by (auto simp: wildcardPaths_def callGetPage_def found_def split: sum.splits option.splits)
  have c3: "found (getPage E h ?q1) = None \<Longrightarrow> found (getPage E (h @ [?q1]) ?q2) = None \<Longrightarrow>
      found (getPage E ((h @ [?q1]) @ [?q2]) ?q3) = Some d \<Longrightarrow> pageName d = ''*'' \<or> f = ''*'' \<Longrightarrow>
      ?res = (Some d, ((h @ [?q1]) @ [?q2]) @ [?q3])" for d
    by (auto simp: wildcardPaths_def callGetPage_def found_def split: sum.splits option.splits)
  have c4: "found (getPage E h ?q1) = None \<Longrightarrow> found (getPage E (h @ [?q1]) ?q2) = None \<Longrightarrow>
      found (getPage E ((h @ [?q1]) @ [?q2]) ?q3) = Some p \<Longrightarrow> pageName p \<noteq> ''*'' \<Longrightarrow> f \<noteq> ''*'' \<Longrightarrow>
      found (getPage E (((h @ [?q1]) @ [?q2]) @ [?q3]) ?q1) = Some c \<Longrightarrow> pageName c = ''*'' \<Longrightarrow>
      ?res = (Some c, (((h @ [?q1]) @ [?q2]) @ [?q3]) @ [?q1])" for p c
    by (auto simp: wildcardPaths_def callGetPage_def found_def split: sum.splits option.splits)
  have c5: "found (getPage E h ?q1) = None \<Longrightarrow> found (getPage E (h @ [?q1]) ?q2) = None \<Longrightarrow>
      found (getPage E ((h @ [?q1]) @ [?q2]) ?q3) = None \<Longrightarrow>
      ?res = (None, ((h @ [?q1]) @ [?q2]) @ [?q3])"
    by (auto simp: wildcardPaths_def callGetPage_def found_def split: sum.splits option.splits)
  show ?thesis
    unfolding Let_def using s1 s2 s3 s4 c1 c2 c3 c4 c5 by blast
qed


text \<open>
  The theorem for claim C3 at five Content Clients, one for each case of the
  discovery loop, and at two for the resolver's scan of a three-segment path.
\<close>

theorem wildcard_discovery_precedence_witness:
  "findWildcardPage (scenarioEnv wildcardOnlyGetPage (remoteStub helloItem)) [] None
       (wildcardPaths [''blog'', ''post-1'']) ''blogs'' ''en'' =
     (Some wildcardTemplate, [([''blog'', ''*''], ''blogs'', ''en'')]) \<and>
   findWildcardPage (scenarioEnv starOnlyGetPage (remoteStub helloItem)) [] None
       (wildcardPaths [''blog'', ''post-1'']) ''blogs'' ''en'' =
     (Some wildcardTemplate, [([''blog'', ''*''], ''blogs'', ''en''), ([''*''], ''blogs'', ''en'')]) \<and>
   findWildcardPage (scenarioEnv wildcardParentGetPage (remoteStub helloItem)) [] None
       (wildcardPaths [''blog'', ''post-1'']) ''blogs'' ''en'' =
     (Some wildcardTemplate, [([''blog'', ''*''], ''blogs'', ''en''), ([''*''], ''blogs'', ''en''),
        ([''blog''], ''blogs'', ''en'')]) \<and>
   findWildcardPage (scenarioEnv lateWildcardGetPage (remoteStub helloItem)) [] None
       (wildcardPaths [''blog'', ''post-1'']) ''blogs'' ''en'' =
     (Some wildcardTemplate, [([''blog'', ''*''], ''blogs'', ''en''), ([''*''], ''blogs'', ''en''),
        ([''blog''], ''blogs'', ''en''), ([''blog'', ''*''], ''blogs'', ''en'')]) \<and>
   findWildcardPage (scenarioEnv emptyGetPage (remoteStub helloItem)) [] None
       (wildcardPaths [''blog'', ''post-1'']) ''blogs'' ''en'' =
     (None, [([''blog'', ''*''], ''blogs'', ''en''), ([''*''], ''blogs'', ''en''),
        ([''blog''], ''blogs'', ''en'')]) \<and>
   scanWildcardPaths (scenarioEnv emptyGetPage (remoteStub helloItem)) []
       (resolverWildcardPaths [''blog'', ''2024'', ''post-1'']) ''blogs'' ''en'' =
     (Inr None, [([''blog'', ''*''], ''blogs'', ''en''), ([''*''], ''blogs'', ''en''),
        ([''blog'', ''2024'', ''*''], ''blogs'', ''en'')]) \<and>
   scanWildcardPaths (scenarioEnv starOnlyGetPage (remoteStub helloItem)) []
       (resolverWildcardPaths [''blog'', ''2024'', ''post-1'']) ''blogs'' ''en'' =
     (Inr (Some wildcardTemplate), [([''blog'', ''*''], ''blogs'', ''en''), ([''*''], ''blogs'', ''en'')])"
proof -
  have w: "pageName wildcardTemplate = ''*''" by (simp add: pageName_def wildcardTemplate_def)
  have p: "pageName plainPage \<noteq> ''*''" by (simp add: pageName_def plainPage_def)
  have b: "''blog'' \<noteq> ''*''" by simp
  note d = Let_def found_def scenarioEnv_def wildcardOnlyGetPage_def starOnlyGetPage_def
        wildcardParentGetPage_def lateWildcardGetPage_def emptyGetPage_def
  have c1: "findWildcardPage (scenarioEnv wildcardOnlyGetPage (remoteStub helloItem)) [] None
       (wildcardPaths [''blog'', ''post-1'']) ''blogs'' ''en'' =
     (Some wildcardTemplate, [([''blog'', ''*''], ''blogs'', ''en'')])"
    using wildcard_discovery_precedence [of "''blog''" "''blogs''" "''en''" "[''post-1'']" "[]"
        "scenarioEnv wildcardOnlyGetPage (remoteStub helloItem)"] w p b
    by (simp add: d)
  have c2: "findWildcardPage (scenarioEnv starOnlyGetPage (remoteStub helloItem)) [] None
       (wildcardPaths [''blog'', ''post-1'']) ''blogs'' ''en'' =
     (Some wildcardTemplate, [([''blog'', ''*''], ''blogs'', ''en''), ([''*''], ''blogs'', ''en'')])"
    using wildcard_discovery_precedence [of "''blog''" "''blogs''" "''en''" "[''post-1'']" "[]"
        "scenarioEnv starOnlyGetPage (remoteStub helloItem)"] w p b
    by (simp add: d)
  have c3: "findWildcardPage (scenarioEnv wildcardParentGetPage (remoteStub helloItem)) [] None
       (wildcardPaths [''blog'', ''post-1'']) ''blogs'' ''en'' =
     (Some wildcardTemplate, [([''blog'', ''*''], ''blogs'', ''en''), ([''*''], ''blogs'', ''en''),
        ([''blog''], ''blogs'', ''en'')])"
    using wildcard_discovery_precedence [of "''blog''" "''blogs''" "''en''" "[''post-1'']" "[]"
        "scenarioEnv wildcardParentGetPage (remoteStub helloItem)"] w p b
    by (simp add: d)
  have c4: "findWildcardPage (scenarioEnv lateWildcardGetPage (remoteStub helloItem)) [] None
       (wildcardPaths [''blog'', ''post-1'']) ''blogs'' ''en'' =
     (Some wildcardTemplate, [([''blog'', ''*''], ''blogs'', ''en''), ([''*''], ''blogs'', ''en''),
        ([''blog''], ''blogs'', ''en''), ([''blog'', ''*''], ''blogs'', ''en'')])"
    using wildcard_discovery_precedence [of "''blog''" "''blogs''" "''en''" "[''post-1'']" "[]"
        "scenarioEnv lateWildcardGetPage (remoteStub helloItem)"] w p b
    by (simp add: d)
  have c5: "findWildcardPage (scenarioEnv emptyGetPage (remoteStub helloItem)) [] None
       (wildcardPaths [''blog'', ''post-1'']) ''blogs'' ''en'' =
     (None, [([''blog'', ''*''], ''blogs'', ''en''), ([''*''], ''blogs'', ''en''),
        ([''blog''], ''blogs'', ''en'')])"
    using wildcard_discovery_precedence [of "''blog''" "''blogs''" "''en''" "[''post-1'']" "[]"
        "scenarioEnv emptyGetPage (remoteStub helloItem)"] w p b
    by (simp add: d)
  have s1: "scanWildcardPaths (scenarioEnv emptyGetPage (remoteStub helloItem)) []
       (resolverWildcardPaths [''blog'', ''2024'', ''post-1'']) ''blogs'' ''en'' =
     (Inr None, [([''blog'', ''*''], ''blogs'', ''en''), ([''*''], ''blogs'', ''en''),
        ([''blog'', ''2024'', ''*''], ''blogs'', ''en'')])"
    using wildcard_discovery_precedence [of "''blog''" "''blogs''" "''en''" "[''2024'', ''post-1'']" "[]"
        "scenarioEnv emptyGetPage (remoteStub helloItem)"]
    by (simp add: d)
  have s2: "scanWildcardPaths (scenarioEnv starOnlyGetPage (remoteStub helloItem)) []
       (resolverWildcardPaths [''blog'', ''2024'', ''post-1'']) ''blogs'' ''en'' =
     (Inr (Some wildcardTemplate), [([''blog'', ''*''], ''blogs'', ''en''), ([''*''], ''blogs'', ''en'')])"
    using wildcard_discovery_precedence [of "''blog''" "''blogs''" "''en''" "[''2024'', ''post-1'']" "[]"
        "scenarioEnv starOnlyGetPage (remoteStub helloItem)"]
    by (simp add: d)
  show ?thesis using c1 c2 c3 c4 c5 s1 s2 by (intro conjI)
qed

lemma makeGraphQLRequest_Some:
  "makeGraphQLRequest E post url path lang apiKey = Inr d \<Longrightarrow> \<exists>ep k. post ep k path lang = Data d"
  by (auto simp: makeGraphQLRequest_def Let_def split: if_splits http_result.splits)

lemma resolve_None_fallback:
  assumes "found (getPage E h (filter cleanSegment path, site, normalizeLocale locale)) = None"
    and "TARGET_SITE_NAME E = [] \<or> TARGET_SITE_PATH E = [] \<or>
         (\<forall>ep k p l item. postItemQuery E ep k p l \<noteq> Data (Some item))"
  shows "fst (resolvePageWithWildcard E h path site locale) = None"
proof (rule ccontr)
  assume "fst (resolvePageWithWildcard E h path site locale) \<noteq> None"
  then obtain D where D: "fst (resolvePageWithWildcard E h path site locale) = Some D" by auto
  from resolve_Some [OF D] assms(1) obtain h2 where
    q: "fst (queryTargetSiteAndCreatePage E h2 (filter cleanSegment path) site (normalizeLocale locale)) = Some D"
    by auto
  from queryTarget_Some [OF q] obtain item where
    c: "TARGET_SITE_NAME E \<noteq> []" "TARGET_SITE_PATH E \<noteq> []" and
    m: "makeGraphQLRequest E (postItemQuery E) (edgeUrl E)
        (TARGET_SITE_PATH E @ ''/'' @ itemNameOf (filter validSegment (filter cleanSegment path)))
        (if normalizeLocale locale \<noteq> [] \<and> normalizeLocale locale \<noteq> ''appspecific''
         then normalizeLocale locale else ''en'') (contextId E) = Inr (Some item)"
    by blast
  from makeGraphQLRequest_Some [OF m] assms(2) c show False by blast
qed

text \<open>
  Claim C7, as the code has it.  The result of the resolver is a page or nothing: an exception
  raised anywhere in its body, by the Content Client or otherwise, is caught and
  nothing is returned.  It returns nothing when the Content Client and the
  Remote Query Client both return nothing; when one of the two remote-target
  values is empty and the direct lookup found no document; and when every
  remote query fails (rejected fetch, non-success status, or errors in the
  envelope) and the direct lookup found no document.
\<close>

theorem resolve_never_raises:
  "(\<forall>e h'. resolvePageWithWildcard_body E h path site locale = (Inl e, h') \<longrightarrow>
       resolvePageWithWildcard E h path site locale = (None, h')) \<and>
   ((\<forall>h' q. getPage E h' q = Inr None) \<and> (\<forall>ep k p l. postItemQuery E ep k p l = Data None) \<longrightarrow>
       fst (resolvePageWithWildcard E h path site locale) = None) \<and>
   ((TARGET_SITE_NAME E = [] \<or> TARGET_SITE_PATH E = []) \<and>
    found (getPage E h (filter cleanSegment path, site, normalizeLocale locale)) = None \<longrightarrow>
       fst (resolvePageWithWildcard E h path site locale) = None) \<and>
   ((\<forall>ep k p l. postItemQuery E ep k p l = Rejected \<or>
        (\<exists>code body. postItemQuery E ep k p l = Status code body) \<or>
        (\<exists>errs. postItemQuery E ep k p l = Errors errs)) \<and>
    found (getPage E h (filter cleanSegment path, site, normalizeLocale locale)) = None \<longrightarrow>
       fst (resolvePageWithWildcard E h path site locale) = None)"
proof (intro conjI allI impI)
  fix e h' assume "resolvePageWithWildcard_body E h path site locale = (Inl e, h')"
  then show "resolvePageWithWildcard E h path site locale = (None, h')"
    by (simp add: resolvePageWithWildcard_def)
next
  assume a: "(\<forall>h' q. getPage E h' q = Inr None) \<and> (\<forall>ep k p l. postItemQuery E ep k p l = Data None)"
  show "fst (resolvePageWithWildcard E h path site locale) = None"
    by (rule resolve_None_fallback) (simp_all add: a found_def)
next
  assume a: "(TARGET_SITE_NAME E = [] \<or> TARGET_SITE_PATH E = []) \<and>
    found (getPage E h (filter cleanSegment path, site, normalizeLocale locale)) = None"
  then show "fst (resolvePageWithWildcard E h path site locale) = None"
    by (intro resolve_None_fallback) auto
next
  assume a: "(\<forall>ep k p l. postItemQuery E ep k p l = Rejected \<or>
        (\<exists>code body. postItemQuery E ep k p l = Status code body) \<or>
        (\<exists>errs. postItemQuery E ep k p l = Errors errs)) \<and>
    found (getPage E h (filter cleanSegment path, site, normalizeLocale locale)) = None"
  have "\<forall>ep k p l item. postItemQuery E ep k p l \<noteq> Data (Some item)"
  proof (intro allI)
    fix ep k p l item
    from a have "postItemQuery E ep k p l = Rejected \<or>
        (\<exists>code body. postItemQuery E ep k p l = Status code body) \<or>
        (\<exists>errs. postItemQuery E ep k p l = Errors errs)" by blast
    then show "postItemQuery E ep k p l \<noteq> Data (Some item)" by auto
  qed
  with a show "fst (resolvePageWithWildcard E h path site locale) = None"
    by (intro resolve_None_fallback) auto
qed

text \<open>The theorem for claim C7 at four scenarios, one for each of its parts.\<close>

theorem resolve_never_raises_witness:
  "resolvePageWithWildcard (scenarioEnv failingGetPage (remoteStub helloItem)) []
       [''blog'', ''post-1''] ''blogs'' ''en'' = (None, [([''blog'', ''post-1''], ''blogs'', ''en'')]) \<and>
   fst (resolvePageWithWildcard (scenarioEnv emptyGetPage emptyRemote) []
       [''blog'', ''post-1''] ''blogs'' ''en'') = None \<and>
   fst (resolvePageWithWildcard (unconfigured (scenarioEnv wildcardOnlyGetPage (remoteStub helloItem))) []
       [''blog'', ''post-1''] ''blogs'' ''en'') = None \<and>
   fst (resolvePageWithWildcard (scenarioEnv wildcardOnlyGetPage unavailableRemote) []
       [''blog'', ''post-1''] ''blogs'' ''en'') = None"
proof -
  have c: "filter cleanSegment [''blog'', ''post-1''] = [''blog'', ''post-1'']"
    by (simp add: cleanSegment_def)
  have b: "resolvePageWithWildcard_body (scenarioEnv failingGetPage (remoteStub helloItem)) []
       [''blog'', ''post-1''] ''blogs'' ''en'' =
       (Inl (ClientFailure ''connection reset''), [([''blog'', ''post-1''], ''blogs'', ''en'')])"
    by (simp add: resolvePageWithWildcard_body_def isSystemRequest_def cleanSegment_def
        normalizeLocale_def callGetPage_def scenarioEnv_def failingGetPage_def Let_def)
  have e: "(\<forall>h' q. getPage (scenarioEnv emptyGetPage emptyRemote) h' q = Inr None) \<and>
      (\<forall>ep k p l. postItemQuery (scenarioEnv emptyGetPage emptyRemote) ep k p l = Data None)"
    by (simp add: scenarioEnv_def emptyGetPage_def emptyRemote_def)
  have u: "(TARGET_SITE_NAME (unconfigured (scenarioEnv wildcardOnlyGetPage (remoteStub helloItem))) = [] \<or>
       TARGET_SITE_PATH (unconfigured (scenarioEnv wildcardOnlyGetPage (remoteStub helloItem))) = []) \<and>
      found (getPage (unconfigured (scenarioEnv wildcardOnlyGetPage (remoteStub helloItem))) []
        (filter cleanSegment [''blog'', ''post-1''], ''blogs'', normalizeLocale ''en'')) = None"
    unfolding c
    by (simp add: unconfigured_def scenarioEnv_def TARGET_SITE_NAME_def wildcardOnlyGetPage_def
        found_def)
  have r: "(\<forall>ep k p l. postItemQuery (scenarioEnv wildcardOnlyGetPage unavailableRemote) ep k p l = Rejected \<or>
        (\<exists>code body. postItemQuery (scenarioEnv wildcardOnlyGetPage unavailableRemote) ep k p l = Status code body) \<or>
        (\<exists>errs. postItemQuery (scenarioEnv wildcardOnlyGetPage unavailableRemote) ep k p l = Errors errs)) \<and>
      found (getPage (scenarioEnv wildcardOnlyGetPage unavailableRemote) []
        (filter cleanSegment [''blog'', ''post-1''], ''blogs'', normalizeLocale ''en'')) = None"
    unfolding c
    by (simp add: scenarioEnv_def unavailableRemote_def wildcardOnlyGetPage_def found_def)
  have w1: "resolvePageWithWildcard (scenarioEnv failingGetPage (remoteStub helloItem)) []
       [''blog'', ''post-1''] ''blogs'' ''en'' = (None, [([''blog'', ''post-1''], ''blogs'', ''en'')])"
    using resolve_never_raises [of "scenarioEnv failingGetPage (remoteStub helloItem)" "[]"
        "[''blog'', ''post-1'']" "''blogs''" "''en''", THEN conjunct1] b
    by blast
  have w2: "fst (resolvePageWithWildcard (scenarioEnv emptyGetPage emptyRemote) []
       [''blog'', ''post-1''] ''blogs'' ''en'') = None"
    using resolve_never_raises [of "scenarioEnv emptyGetPage emptyRemote" "[]"
        "[''blog'', ''post-1'']" "''blogs''" "''en''", THEN conjunct2, THEN conjunct1] e
    by (rule mp)
  have w3: "fst (resolvePageWithWildcard (unconfigured (scenarioEnv wildcardOnlyGetPage (remoteStub helloItem))) []
       [''blog'', ''post-1''] ''blogs'' ''en'') = None"
    using resolve_never_raises [of "unconfigured (scenarioEnv wildcardOnlyGetPage (remoteStub helloItem))" "[]"
        "[''blog'', ''post-1'']" "''blogs''" "''en''", THEN conjunct2, THEN conjunct2,
        THEN conjunct1] u
    by (rule mp)
  have w4: "fst (resolvePageWithWildcard (scenarioEnv wildcardOnlyGetPage unavailableRemote) []
       [''blog'', ''post-1''] ''blogs'' ''en'') = None"
    using resolve_never_raises [of "scenarioEnv wildcardOnlyGetPage unavailableRemote" "[]"
        "[''blog'', ''post-1'']" "''blogs''" "''en''", THEN conjunct2, THEN conjunct2,
        THEN conjunct2] r
    by (rule mp)
  show ?thesis using w1 w2 w3 w4 by (intro conjI)
qed

text \<open>
  Claim C3 as stated fails.  For the path \<open>["blog","2024","post-1"]\<close>, with a
  Content Client that has no page at all and a remote item for \<open>post-1\<close>, the
  requests made to the Content Client are, in order: the direct lookup; the
  resolver's own scan, whose third candidate is \<open>["blog","2024","*"]\<close>; the
  discovery inside the enrichment; the parent; the root.
\<close>

theorem c3_counterexample:
  "snd (resolvePageWithWildcard (scenarioEnv emptyGetPage (remoteStub helloItem)) []
         [''blog'', ''2024'', ''post-1''] ''blogs'' ''en'') =
     [([''blog'', ''2024'', ''post-1''], ''blogs'', ''en''),
      ([''blog'', ''*''], ''blogs'', ''en''),
      ([''*''], ''blogs'', ''en''),
      ([''blog'', ''2024'', ''*''], ''blogs'', ''en''),
      ([''blog'', ''*''], ''blogs'', ''en''),
      ([''*''], ''blogs'', ''en''),
      ([''blog''], ''blogs'', ''en''),
      ([''blog''], ''blogs'', ''en''),
      ([], ''blogs'', ''en'')]"
  by (simp add: eval_defs scenarioEnv_def emptyGetPage_def remoteStub_def)








text \<open>
  Claim C7 as stated fails in one part: with both remote-target values empty and
  a page at the requested path, the resolver returns that page.
\<close>

theorem c7_counterexample:
  "fst (resolvePageWithWildcard (unconfigured (scenarioEnv blogGetPage (remoteStub helloItem))) []
         [''blog''] ''blogs'' ''en'') = Some plainPage"
  by (simp add: eval_defs scenarioEnv_def unconfigured_def blogGetPage_def plainPage_def)

section \<open>Properties of the sitemap synthesizer\<close>














lemma enhance_children:
  assumes "TARGET_SITE_NAME E \<noteq> []" "TARGET_SITE_PATH E \<noteq> []"
    and "defaultSiteOf E \<noteq> []"
    and "getWildcardPathPrefix E h (defaultSiteOf E) ''en'' = (Inr wildcardPrefix, h1)"
    and "getTargetSiteChildren E ''en'' = children" and "children \<noteq> []"
  shows "fst (enhanceSitemapWithWildcardPages E h sitemapXml baseUrl clock) =
     (let entries = join (wildcardUrlEntries baseUrl (defaultSiteOf E) ''en'' wildcardPrefix
                            clock 0 children) []
      in if includesStr sitemapXml closingTag
         then replace sitemapXml closingTag [] @ entries @ NL @ closingTag
         else sitemapXml @ entries)"
  using assms
  by (simp add: enhanceSitemapWithWildcardPages_def enhance_body_def Let_def)


lemma sitemapEnv_facts:
  "TARGET_SITE_NAME sitemapEnv \<noteq> []" "TARGET_SITE_PATH sitemapEnv \<noteq> []"
  "defaultSiteOf sitemapEnv = ''blogs''"
  "getWildcardPathPrefix sitemapEnv [] ''blogs'' ''en'' =
     (Inr [''blog''], [([''blog'', ''*''], ''blogs'', ''en''), ([''*''], ''blogs'', ''en'')])"
  "getTargetSiteChildren sitemapEnv ''en'' = [sitemapChild]"
  by (simp_all add: sitemapEnv_def scenarioEnv_def TARGET_SITE_NAME_def TARGET_SITE_PATH_def
      defaultSiteOf_def getWildcardPathPrefix_def WILDCARD_PATH_PREFIX_def callGetPage_def
      emptyGetPage_def getTargetSiteChildren_def makeGraphQLRequest_def childrenStub_def Let_def)


lemma getTargetSiteChildren_failed:
  assumes "\<forall>ep k p l. postChildrenQuery E ep k p l = Rejected \<or>
        (\<exists>code body. postChildrenQuery E ep k p l = Status code body) \<or>
        (\<exists>errs. postChildrenQuery E ep k p l = Errors errs)"
  shows "getTargetSiteChildren E locale = []"
proof -
  have "makeGraphQLRequest E (postChildrenQuery E) url path lang key \<noteq> Inr d" for url path lang key d
  proof
    assume "makeGraphQLRequest E (postChildrenQuery E) url path lang key = Inr d"
    then obtain ep k where "postChildrenQuery E ep k path lang = Data d"
      by (auto simp: makeGraphQLRequest_def Let_def split: if_splits http_result.splits)
    with assms show False by (metis http_result.distinct(5,9,11))
  qed
  then show ?thesis
    by (auto simp: getTargetSiteChildren_def Let_def split: sum.splits option.splits)
qed

lemma enhance_no_children:
  "getTargetSiteChildren E ''en'' = [] \<Longrightarrow>
   fst (enhanceSitemapWithWildcardPages E h sitemapXml baseUrl clock) = sitemapXml"
  by (auto simp: enhanceSitemapWithWildcardPages_def enhance_body_def Let_def
      split: prod.splits sum.splits)

text \<open>
  Claim C9, as the code has it.  The synthesizer returns a sitemap, never an
  error.  It returns the input unchanged when one of the two remote-target
  values is empty, when no default site is configured, when an exception
  escapes the enrichment, when every remote children query fails, and when
  there are no remote children.
\<close>

theorem sitemap_best_effort:
  "(TARGET_SITE_NAME E = [] \<or> TARGET_SITE_PATH E = [] \<longrightarrow>
      enhanceSitemapWithWildcardPages E h sitemapXml baseUrl clock = (sitemapXml, h)) \<and>
   (defaultSiteOf E = [] \<longrightarrow>
      enhanceSitemapWithWildcardPages E h sitemapXml baseUrl clock = (sitemapXml, h)) \<and>
   (\<forall>e h'. enhance_body E h sitemapXml baseUrl clock = (Inl e, h') \<longrightarrow>
      fst (enhanceSitemapWithWildcardPages E h sitemapXml baseUrl clock) = sitemapXml) \<and>
   ((\<forall>ep k p l. postChildrenQuery E ep k p l = Rejected \<or>
        (\<exists>code body. postChildrenQuery E ep k p l = Status code body) \<or>
        (\<exists>errs. postChildrenQuery E ep k p l = Errors errs)) \<longrightarrow>
      fst (enhanceSitemapWithWildcardPages E h sitemapXml baseUrl clock) = sitemapXml) \<and>
   (getTargetSiteChildren E ''en'' = [] \<longrightarrow>
      fst (enhanceSitemapWithWildcardPages E h sitemapXml baseUrl clock) = sitemapXml)"
proof (intro conjI allI impI)
  assume "TARGET_SITE_NAME E = [] \<or> TARGET_SITE_PATH E = []"
  then show "enhanceSitemapWithWildcardPages E h sitemapXml baseUrl clock = (sitemapXml, h)"
    by (auto simp: enhanceSitemapWithWildcardPages_def)
next
  assume "defaultSiteOf E = []"
  then show "enhanceSitemapWithWildcardPages E h sitemapXml baseUrl clock = (sitemapXml, h)"
    by (simp add: enhanceSitemapWithWildcardPages_def enhance_body_def Let_def)
next
  fix e h' assume "enhance_body E h sitemapXml baseUrl clock = (Inl e, h')"
  then show "fst (enhanceSitemapWithWildcardPages E h sitemapXml baseUrl clock) = sitemapXml"
    by (simp add: enhanceSitemapWithWildcardPages_def)
next
  assume "\<forall>ep k p l. postChildrenQuery E ep k p l = Rejected \<or>
        (\<exists>code body. postChildrenQuery E ep k p l = Status code body) \<or>
        (\<exists>errs. postChildrenQuery E ep k p l = Errors errs)"
  then have "getTargetSiteChildren E ''en'' = []" by (rule getTargetSiteChildren_failed)
  then show "fst (enhanceSitemapWithWildcardPages E h sitemapXml baseUrl clock) = sitemapXml"
    by (rule enhance_no_children)
next
  assume "getTargetSiteChildren E ''en'' = []"
  then show "fst (enhanceSitemapWithWildcardPages E h sitemapXml baseUrl clock) = sitemapXml"
    by (rule enhance_no_children)
qed

text \<open>
  The theorem for claim C9 without remote-target configuration, with a client
  module that fails to load, and with a remote source that is unavailable.
\<close>

theorem sitemap_best_effort_witness:
  "enhanceSitemapWithWildcardPages (unconfigured sitemapEnv) [] baseSitemap ''https://example.com''
      fixedClock = (baseSitemap, []) \<and>
   fst (enhanceSitemapWithWildcardPages noModuleEnv [] baseSitemap ''https://example.com''
      fixedClock) = baseSitemap \<and>
   fst (enhanceSitemapWithWildcardPages noChildrenEnv [] baseSitemap ''https://example.com''
      fixedClock) = baseSitemap"
proof -
  have u: "TARGET_SITE_NAME (unconfigured sitemapEnv) = [] \<or> TARGET_SITE_PATH (unconfigured sitemapEnv) = []"
    by (simp add: unconfigured_def TARGET_SITE_NAME_def)
  have m: "enhance_body noModuleEnv [] baseSitemap ''https://example.com'' fixedClock =
      (Inl ModuleLoadFailure, [])"
    by (simp add: enhance_body_def noModuleEnv_def sitemapEnv_def scenarioEnv_def defaultSiteOf_def
        getWildcardPathPrefix_def WILDCARD_PATH_PREFIX_def Let_def)
  have c: "\<forall>ep k p l. postChildrenQuery noChildrenEnv ep k p l = Rejected \<or>
        (\<exists>code body. postChildrenQuery noChildrenEnv ep k p l = Status code body) \<or>
        (\<exists>errs. postChildrenQuery noChildrenEnv ep k p l = Errors errs)"
    by (simp add: noChildrenEnv_def unavailableChildren_def)
  have w1: "enhanceSitemapWithWildcardPages (unconfigured sitemapEnv) [] baseSitemap
      ''https://example.com'' fixedClock = (baseSitemap, [])"
    using sitemap_best_effort [of "unconfigured sitemapEnv" "[]" baseSitemap
        "''https://example.com''" fixedClock, THEN conjunct1] u
    by (rule mp)
  have w2: "fst (enhanceSitemapWithWildcardPages noModuleEnv [] baseSitemap ''https://example.com''
      fixedClock) = baseSitemap"
    using sitemap_best_effort [of noModuleEnv "[]" baseSitemap
        "''https://example.com''" fixedClock, THEN conjunct2, THEN conjunct2, THEN conjunct1] m
    by blast
  have w3: "fst (enhanceSitemapWithWildcardPages noChildrenEnv [] baseSitemap ''https://example.com''
      fixedClock) = baseSitemap"
    using sitemap_best_effort [of noChildrenEnv "[]" baseSitemap
        "''https://example.com''" fixedClock, THEN conjunct2, THEN conjunct2, THEN conjunct2,
        THEN conjunct1] c
    by (rule mp)
  show ?thesis using w1 w2 w3 by (intro conjI)
qed

text \<open>
  Claim C9 as stated fails: a malformed base sitemap (here without the closing
  tag) is not returned unchanged when there is a remote child; the entry is
  appended to it.
\<close>

theorem c9_counterexample:
  "fst (enhanceSitemapWithWildcardPages sitemapEnv [] ''<urlset>'' ''https://example.com'' fixedClock) =
     ''<urlset>'' @
     urlEntry ''https://example.com/blogs/en/blog/post-1'' ''2026-01-01T00:00:00.000Z'' \<and>
   fst (enhanceSitemapWithWildcardPages sitemapEnv [] ''<urlset>'' ''https://example.com'' fixedClock) \<noteq>
     ''<urlset>''"
proof -
  have "fst (enhanceSitemapWithWildcardPages sitemapEnv [] ''<urlset>'' ''https://example.com'' fixedClock) =
     ''<urlset>'' @
     urlEntry ''https://example.com/blogs/en/blog/post-1'' ''2026-01-01T00:00:00.000Z''"
    using enhance_children [OF sitemapEnv_facts(1,2), of "[]" "[''blog'']"
        "[([''blog'', ''*''], ''blogs'', ''en''), ([''*''], ''blogs'', ''en'')]" "[sitemapChild]"
        "''<urlset>''" "''https://example.com''" fixedClock]
    by (simp add: sitemapEnv_facts closingTag_def sitemapChild_def fixedClock_def Let_def)
  then show ?thesis by (simp add: urlEntry_def NL_def)
qed

end
